theory Spec2Isabelle
  imports Complex_Main
begin

section \<open>Numbers and vectors\<close>

text \<open>
  The track engine of the roller-coaster builder computes with JavaScript numbers and
  with \<^verbatim>\<open>THREE.Vector3\<close> objects. Numbers are modelled by the reals: no rounding,
  no NaN, no infinities. Every division of the source whose divisor can be zero is
  named where it occurs, and the theorems that depend on its value exclude the zero
  divisor by a hypothesis.

  A \<^verbatim>\<open>THREE.Vector3\<close> is a triple of numbers. The methods below are the ones the
  source calls; each mutating method of three.js is the function that returns the new
  vector.
\<close>

datatype vec3 = Vector3 (vx: real) (vy: real) (vz: real)

definition vadd :: "vec3 \<Rightarrow> vec3 \<Rightarrow> vec3" where
  "vadd a b = Vector3 (vx a + vx b) (vy a + vy b) (vz a + vz b)"

definition vsub :: "vec3 \<Rightarrow> vec3 \<Rightarrow> vec3" where
  "vsub a b = Vector3 (vx a - vx b) (vy a - vy b) (vz a - vz b)"

definition multiplyScalar :: "vec3 \<Rightarrow> real \<Rightarrow> vec3" where
  "multiplyScalar a s = Vector3 (vx a * s) (vy a * s) (vz a * s)"

definition addScaledVector :: "vec3 \<Rightarrow> vec3 \<Rightarrow> real \<Rightarrow> vec3" where
  "addScaledVector a v s = Vector3 (vx a + vx v * s) (vy a + vy v * s) (vz a + vz v * s)"

definition vdot :: "vec3 \<Rightarrow> vec3 \<Rightarrow> real" where
  "vdot a b = vx a * vx b + vy a * vy b + vz a * vz b"

definition lengthSq :: "vec3 \<Rightarrow> real" where
  "lengthSq a = vx a * vx a + vy a * vy a + vz a * vz a"

definition vlength :: "vec3 \<Rightarrow> real" where
  "vlength a = sqrt (lengthSq a)"

definition crossVectors :: "vec3 \<Rightarrow> vec3 \<Rightarrow> vec3" where
  "crossVectors a b =
     Vector3 (vy a * vz b - vz a * vy b) (vz a * vx b - vx a * vz b) (vx a * vy b - vy a * vx b)"

definition distanceTo :: "vec3 \<Rightarrow> vec3 \<Rightarrow> real" where
  "distanceTo a b = vlength (vsub a b)"

text \<open>
  \<^verbatim>\<open>normalize()\<close> of three.js is \<^verbatim>\<open>divideScalar(this.length() || 1)\<close>: a vector of
  length zero is divided by one and stays the zero vector.
\<close>

definition normalize :: "vec3 \<Rightarrow> vec3" where
  "normalize a = multiplyScalar a (1 / (if vlength a = 0 then 1 else vlength a))"

definition zeroVector :: vec3 where
  "zeroVector = Vector3 0 0 0"

section \<open>The closed-form loop evaluator\<close>

text \<open>
  \<^verbatim>\<open>BarrelRollFrame\<close> and \<^verbatim>\<open>sampleBarrelRollAnalytically\<close>, which
  CoasterCar.tsx, RideCamera.tsx and Track.tsx each carry a copy of. The three copies
  compute point, tangent and up by the same expressions (the copy of Track.tsx returns
  a fourth vector, the rotated right, as well).
\<close>

record BarrelRollFrame =
  entryPos :: vec3
  forward :: vec3
  up :: vec3
  right :: vec3
  radius :: real
  pitch :: real

record Sample =
  point :: vec3
  tangent :: vec3
  sampleUp :: vec3
  inRoll :: bool

definition twoPi :: real where
  "twoPi = pi * 2"

definition theta :: "real \<Rightarrow> real" where
  "theta t = twoPi * (t - sin (twoPi * t) / twoPi)"

definition dThetaDt :: "real \<Rightarrow> real" where
  "dThetaDt t = twoPi * (1 - cos (twoPi * t))"

definition rollPoint :: "BarrelRollFrame \<Rightarrow> real \<Rightarrow> vec3" where
  "rollPoint frame t =
     addScaledVector
       (addScaledVector
          (addScaledVector (entryPos frame) (forward frame) (pitch frame * t))
          (right frame) (radius frame * (cos (theta t) - 1)))
       (up frame) (radius frame * sin (theta t))"

definition rollTangent :: "BarrelRollFrame \<Rightarrow> real \<Rightarrow> vec3" where
  "rollTangent frame t =
     normalize
       (addScaledVector
          (addScaledVector
             (multiplyScalar (forward frame) (pitch frame))
             (right frame) (- radius frame * sin (theta t) * dThetaDt t))
          (up frame) (radius frame * cos (theta t) * dThetaDt t))"

definition rotatedUp :: "BarrelRollFrame \<Rightarrow> real \<Rightarrow> vec3" where
  "rotatedUp frame t =
     normalize
       (addScaledVector
          (addScaledVector zeroVector (up frame) (cos (theta t)))
          (right frame) (- sin (theta t)))"

definition sampleBarrelRollAnalytically :: "BarrelRollFrame \<Rightarrow> real \<Rightarrow> Sample" where
  "sampleBarrelRollAnalytically frame t =
     \<lparr> point = rollPoint frame t, tangent = rollTangent frame t,
       sampleUp = rotatedUp frame t, inRoll = True \<rparr>"

text \<open>The entry basis of a loop as the splicer means to build it.\<close>

definition orthonormal :: "BarrelRollFrame \<Rightarrow> bool" where
  "orthonormal frame \<longleftrightarrow>
     vlength (forward frame) = 1 \<and> vlength (up frame) = 1 \<and> vlength (right frame) = 1 \<and>
     vdot (forward frame) (up frame) = 0 \<and> vdot (forward frame) (right frame) = 0 \<and>
     vdot (up frame) (right frame) = 0"

text \<open>
  The two vectors that the evaluator normalises: the derivative of the position, with
  the coefficients of right and up left open, and the turned up.
\<close>

definition rawTangent :: "BarrelRollFrame \<Rightarrow> real \<Rightarrow> real \<Rightarrow> vec3" where
  "rawTangent frame a b =
     addScaledVector (addScaledVector (multiplyScalar (forward frame) (pitch frame)) (right frame) a)
       (up frame) b"

definition rawUp :: "BarrelRollFrame \<Rightarrow> real \<Rightarrow> real \<Rightarrow> vec3" where
  "rawUp frame c s = addScaledVector (addScaledVector zeroVector (up frame) c) (right frame) s"

section \<open>Rotations\<close>

text \<open>
  \<^verbatim>\<open>new THREE.Quaternion().setFromAxisAngle(axis, angle)\<close> and
  \<^verbatim>\<open>Vector3.applyQuaternion(q)\<close> of three.js, used by the frame propagation.
\<close>

datatype quaternion = Quaternion (qx: real) (qy: real) (qz: real) (qw: real)

definition setFromAxisAngle :: "vec3 \<Rightarrow> real \<Rightarrow> quaternion" where
  "setFromAxisAngle axis angle =
     (let halfAngle = angle / 2; s = sin halfAngle
      in Quaternion (vx axis * s) (vy axis * s) (vz axis * s) (cos halfAngle))"

definition applyQuaternion :: "vec3 \<Rightarrow> quaternion \<Rightarrow> vec3" where
  "applyQuaternion v q =
     (let tx = 2 * (qy q * vz v - qz q * vy v);
          ty = 2 * (qz q * vx v - qx q * vz v);
          tz = 2 * (qx q * vy v - qy q * vx v)
      in Vector3 (vx v + qw q * tx + qy q * tz - qz q * ty)
                 (vy v + qw q * ty + qz q * tx - qx q * tz)
                 (vz v + qw q * tz + qx q * ty - qy q * tx))"

definition lerp :: "vec3 \<Rightarrow> vec3 \<Rightarrow> real \<Rightarrow> vec3" where
  "lerp a v alpha =
     Vector3 (vx a + (vx v - vx a) * alpha) (vy a + (vy v - vy a) * alpha)
             (vz a + (vz v - vz a) * alpha)"

section \<open>Track data\<close>

text \<open>
  \<^verbatim>\<open>TrackPoint\<close> and \<^verbatim>\<open>LoopSegment\<close> of useRollerCoaster.tsx. The fields
  \<^verbatim>\<open>id\<close>, \<^verbatim>\<open>radius\<close> and \<^verbatim>\<open>pitch\<close> carry a prefix here, since a field name
  is a constant of the theory.
\<close>

record TrackPoint =
  pointId :: string
  position :: vec3
  tilt :: real
  hasLoop :: "bool option"

record LoopSegment =
  segId :: string
  entryPointId :: string
  segRadius :: real
  segPitch :: real

text \<open>
  The spline is a \<^verbatim>\<open>THREE.CatmullRomCurve3\<close>, a class of three.js. The engine only
  calls its \<^verbatim>\<open>getPoint\<close> and \<^verbatim>\<open>getTangent\<close>, so a curve is the pair of these
  two functions and the constructor is a parameter of \<open>getTrackCurve\<close>.
\<close>

record Curve =
  getPoint :: "real \<Rightarrow> vec3"
  getTangent :: "real \<Rightarrow> vec3"

definition getTrackCurve ::
  "(vec3 list \<Rightarrow> bool \<Rightarrow> Curve) \<Rightarrow> TrackPoint list \<Rightarrow> bool \<Rightarrow> Curve option" where
  "getTrackCurve catmullRom trackPoints looped =
     (if length trackPoints < 2 then None
      else Some (catmullRom (map position trackPoints) looped))"

text \<open>
  \<^verbatim>\<open>loopMap\<close>: a \<^verbatim>\<open>Map\<close> filled in the order of the segments, so a later segment
  with the same entry point replaces an earlier one.
\<close>

definition loopMapOf :: "LoopSegment list \<Rightarrow> (string \<rightharpoonup> LoopSegment)" where
  "loopMapOf loopSegments = fold (\<lambda>seg m. m(entryPointId seg \<mapsto> seg)) loopSegments Map.empty"

section \<open>Section table\<close>

datatype SectionType = Spline | Roll

record TrackSection =
  sectionType :: SectionType
  startProgress :: real
  endProgress :: real
  arcLength :: real
  rollFrame :: "BarrelRollFrame option"
  splineStartT :: "real option"
  splineEndT :: "real option"
  pointIndex :: "nat option"

definition clampDot :: "real \<Rightarrow> real" where
  "clampDot d = max (-1) (min 1 d)"

definition computeRollFrame ::
  "Curve \<Rightarrow> real \<Rightarrow> vec3 \<Rightarrow> vec3 \<Rightarrow> real \<Rightarrow> real \<Rightarrow> vec3 \<Rightarrow> BarrelRollFrame" where
  "computeRollFrame spline splineT prevTangent prevUp rad pit rollOffset =
     (let entry = vadd (getPoint spline splineT) rollOffset;
          fwd = normalize (getTangent spline splineT);
          d = clampDot (vdot prevTangent fwd);
          entryUp0 =
            (if d > 0.9999 then prevUp
             else if d < -0.9999 then prevUp
             else (let axis = crossVectors prevTangent fwd
                   in if vlength axis > 0.0001
                      then applyQuaternion prevUp (setFromAxisAngle (normalize axis) (arccos d))
                      else prevUp));
          upDot = vdot entryUp0 fwd;
          entryUp1 = vsub entryUp0 (multiplyScalar fwd upDot);
          entryUp =
            (if vlength entryUp1 > 0.001 then normalize entryUp1
             else (let e = Vector3 0 1 0; d2 = vdot e fwd
                   in normalize (vsub e (multiplyScalar fwd d2))));
          rgt = normalize (crossVectors fwd entryUp)
      in \<lparr> entryPos = entry, forward = fwd, up = entryUp, right = rgt,
           radius = rad, pitch = pit \<rparr>)"

text \<open>\<^verbatim>\<open>computeRollArcLength\<close>: one pass of its loop, and the loop over 100 steps.\<close>

definition rollArcStep :: "real \<Rightarrow> real \<Rightarrow> nat \<Rightarrow> real \<Rightarrow> real" where
  "rollArcStep rad pit i len =
     (let steps = 100;
          t1 = real i / steps;
          t2 = (real i + 1) / steps;
          theta1 = twoPi * (t1 - sin (twoPi * t1) / twoPi);
          theta2 = twoPi * (t2 - sin (twoPi * t2) / twoPi);
          dTheta = theta2 - theta1;
          dForward = pit / steps;
          dRadial = rad * sqrt (dTheta * dTheta)
      in len + sqrt (dForward * dForward + dRadial * dRadial))"

definition computeRollArcLength :: "real \<Rightarrow> real \<Rightarrow> real" where
  "computeRollArcLength rad pit = fold (rollArcStep rad pit) [0..<100] 0"

text \<open>The chord sum of one spline span over 10 sub-samples.\<close>

definition segmentStep :: "Curve \<Rightarrow> real \<Rightarrow> real \<Rightarrow> nat \<Rightarrow> real \<Rightarrow> real" where
  "segmentStep curve startT endT s len =
     (let subSamples = 10;
          t1 = startT + (real s / subSamples) * (endT - startT);
          t2 = startT + ((real s + 1) / subSamples) * (endT - startT)
      in len + distanceTo (getPoint curve t1) (getPoint curve t2))"

definition segmentLength :: "Curve \<Rightarrow> real \<Rightarrow> real \<Rightarrow> real" where
  "segmentLength curve startT endT = fold (segmentStep curve startT endT) [0..<10] 0"

text \<open>
  The state of the loop over the track points in the \<^verbatim>\<open>sections\<close> memo of
  RideCamera.tsx and CoasterCar.tsx (the two loops are the same text).
\<close>

record BuildState =
  sections :: "TrackSection list"
  accumulatedLength :: real
  rollOffset :: vec3
  prevTangent :: vec3
  prevUp :: vec3

definition initialUp :: "vec3 \<Rightarrow> vec3" where
  "initialUp tangent0 =
     (let u0 = Vector3 0 1 0;
          initDot = vdot u0 tangent0;
          u1 = vsub u0 (multiplyScalar tangent0 initDot);
          u2 = (if vlength u1 < 0.01
                then (let e = Vector3 1 0 0; d = vdot e tangent0
                      in vsub e (multiplyScalar tangent0 d))
                else u1)
      in normalize u2)"

definition rollStep :: "Curve \<Rightarrow> real \<Rightarrow> nat \<Rightarrow> LoopSegment \<Rightarrow> BuildState \<Rightarrow> BuildState" where
  "rollStep curve totalSplineSegments i loopSeg st =
     (let splineT = real i / totalSplineSegments;
          frame = computeRollFrame curve splineT (prevTangent st) (prevUp st)
                    (segRadius loopSeg) (segPitch loopSeg) (rollOffset st);
          rollArcLength = computeRollArcLength (segRadius loopSeg) (segPitch loopSeg)
      in \<lparr> sections = sections st @
             [\<lparr> sectionType = Roll, startProgress = 0, endProgress = 0,
                arcLength = rollArcLength, rollFrame = Some frame,
                splineStartT = None, splineEndT = None, pointIndex = Some i \<rparr>],
           accumulatedLength = accumulatedLength st + rollArcLength,
           rollOffset = addScaledVector (rollOffset st) (forward frame) (segPitch loopSeg),
           prevTangent = forward frame,
           prevUp = up frame \<rparr>)"

definition transportUp :: "vec3 \<Rightarrow> vec3 \<Rightarrow> vec3 \<Rightarrow> vec3" where
  "transportUp prevT prevU endTangent =
     (let d = clampDot (vdot prevT endTangent);
          u0 = (if d < 0.9999 \<and> d > -0.9999
                then (let axis = crossVectors prevT endTangent
                      in if vlength axis > 0.0001
                         then applyQuaternion prevU (setFromAxisAngle (normalize axis) (arccos d))
                         else prevU)
                else prevU);
          upDot = vdot u0 endTangent;
          u1 = vsub u0 (multiplyScalar endTangent upDot)
      in if vlength u1 > 0.001 then normalize u1 else u1)"

definition splineStep :: "Curve \<Rightarrow> real \<Rightarrow> nat \<Rightarrow> BuildState \<Rightarrow> BuildState" where
  "splineStep curve totalSplineSegments i st =
     (let startT = real i / totalSplineSegments;
          endT = (real i + 1) / totalSplineSegments;
          len = segmentLength curve startT endT;
          endTangent = normalize (getTangent curve endT)
      in \<lparr> sections = sections st @
             [\<lparr> sectionType = Spline, startProgress = 0, endProgress = 0,
                arcLength = len, rollFrame = None,
                splineStartT = Some startT, splineEndT = Some endT, pointIndex = Some i \<rparr>],
           accumulatedLength = accumulatedLength st + len,
           rollOffset = rollOffset st,
           prevTangent = endTangent,
           prevUp = transportUp (prevTangent st) (prevUp st) endTangent \<rparr>)"

definition buildStep ::
  "Curve \<Rightarrow> TrackPoint list \<Rightarrow> (string \<rightharpoonup> LoopSegment) \<Rightarrow> bool \<Rightarrow> nat \<Rightarrow> BuildState \<Rightarrow> BuildState" where
  "buildStep curve trackPoints loopMap looped i st =
     (let numPoints = length trackPoints;
          totalSplineSegments = (if looped then real numPoints else real numPoints - 1);
          st1 = (case loopMap (pointId (trackPoints ! i)) of
                   None \<Rightarrow> st
                 | Some loopSeg \<Rightarrow> rollStep curve totalSplineSegments i loopSeg st)
      in if i \<ge> numPoints - 1 \<and> \<not> looped then st1
         else splineStep curve totalSplineSegments i st1)"

definition initialBuildState :: "Curve \<Rightarrow> BuildState" where
  "initialBuildState curve =
     (let tangent0 = normalize (getTangent curve 0)
      in \<lparr> sections = [], accumulatedLength = 0, rollOffset = Vector3 0 0 0,
           prevTangent = tangent0, prevUp = initialUp tangent0 \<rparr>)"

definition buildLoop :: "Curve \<Rightarrow> TrackPoint list \<Rightarrow> LoopSegment list \<Rightarrow> bool \<Rightarrow> BuildState" where
  "buildLoop curve trackPoints loopSegments looped =
     fold (buildStep curve trackPoints (loopMapOf loopSegments) looped)
       [0..<length trackPoints] (initialBuildState curve)"

text \<open>
  The last loop of the memo gives every section its share of the progress range. The
  divisor \<open>totalLength\<close> is the accumulated length, which is zero when all chords are.
\<close>

fun assignProgress :: "real \<Rightarrow> real \<Rightarrow> TrackSection list \<Rightarrow> TrackSection list" where
  "assignProgress totalLength runningLength [] = []"
| "assignProgress totalLength runningLength (s # rest) =
     s\<lparr> startProgress := runningLength / totalLength,
        endProgress := (runningLength + arcLength s) / totalLength \<rparr>
     # assignProgress totalLength (runningLength + arcLength s) rest"

text \<open>
  The memo of RideCamera.tsx returns the table and the total arc length (that of
  CoasterCar.tsx the table alone); with fewer than two points, or no curve, the table is
  empty and the total is 0.
\<close>

definition buildSections ::
  "(vec3 list \<Rightarrow> bool \<Rightarrow> Curve) \<Rightarrow> TrackPoint list \<Rightarrow> LoopSegment list \<Rightarrow> bool
     \<Rightarrow> TrackSection list \<times> real" where
  "buildSections catmullRom trackPoints loopSegments looped =
     (if length trackPoints < 2 then ([], 0)
      else case getTrackCurve catmullRom trackPoints looped of
             None \<Rightarrow> ([], 0)
           | Some curve \<Rightarrow>
               (let st = buildLoop curve trackPoints loopSegments looped
                in (assignProgress (accumulatedLength st) 0 (sections st),
                    accumulatedLength st)))"

section \<open>Path sampler\<close>

text \<open>
  \<^verbatim>\<open>sampleHybridTrack\<close> of RideCamera.tsx; the copy of CoasterCar.tsx differs only in
  not returning the flag \<^verbatim>\<open>inRoll\<close>. The result \<open>None\<close> is the source's \<^verbatim>\<open>null\<close>.
\<close>

fun scanSections :: "real \<Rightarrow> TrackSection list \<Rightarrow> TrackSection option" where
  "scanSections progress [] = None"
| "scanSections progress (s # rest) =
     (if progress \<ge> startProgress s \<and> progress < endProgress s then Some s
      else scanSections progress rest)"

definition clampProgress :: "real \<Rightarrow> real" where
  "clampProgress progress = max 0 (min progress 0.9999)"

definition selectSection :: "real \<Rightarrow> TrackSection list \<Rightarrow> TrackSection" where
  "selectSection progress secs =
     (case scanSections progress secs of
        Some s \<Rightarrow> s
      | None \<Rightarrow> secs ! (length secs - 1))"

definition offsetStep ::
  "Curve \<Rightarrow> (string \<rightharpoonup> LoopSegment) \<Rightarrow> TrackPoint list \<Rightarrow> real \<Rightarrow> nat \<Rightarrow> vec3 \<Rightarrow> vec3" where
  "offsetStep spline loopMap trackPoints totalSplineSegments i off =
     (case loopMap (pointId (trackPoints ! i)) of
        None \<Rightarrow> off
      | Some loopSeg \<Rightarrow>
          addScaledVector off
            (normalize (getTangent spline (real i / totalSplineSegments))) (segPitch loopSeg))"

definition splineUp :: "vec3 \<Rightarrow> vec3" where
  "splineUp tangent0 =
     (let u0 = Vector3 0 1 0;
          d = vdot u0 tangent0;
          u1 = vsub u0 (multiplyScalar tangent0 d)
      in if lengthSq u1 > 0.001 then normalize u1
         else (let e = Vector3 1 0 0; d2 = vdot e tangent0
               in normalize (vsub e (multiplyScalar tangent0 d2))))"

definition sampleSpline ::
  "TrackSection \<Rightarrow> real \<Rightarrow> real \<Rightarrow> real \<Rightarrow> Curve \<Rightarrow> LoopSegment list \<Rightarrow> TrackPoint list \<Rightarrow> bool
     \<Rightarrow> Sample" where
  "sampleSpline section localT startT endT spline loopSegments trackPoints looped =
     (let splineT = startT + localT * (endT - startT);
          pt = getPoint spline splineT;
          tan0 = normalize (getTangent spline splineT);
          loopMap = loopMapOf loopSegments;
          numPoints = length trackPoints;
          totalSplineSegments = (if looped then real numPoints else real numPoints - 1);
          bound = (case pointIndex section of None \<Rightarrow> 0 | Some k \<Rightarrow> k);
          off = fold (offsetStep spline loopMap trackPoints totalSplineSegments)
                  [0..<min numPoints (bound + 1)] (Vector3 0 0 0)
      in \<lparr> point = vadd pt off, tangent = tan0, sampleUp = splineUp tan0, inRoll = False \<rparr>)"

text \<open>
  The sample on the selected section. The local parameter divides by the width of the
  section's progress range. On a section of width zero the source computes NaN or an
  infinity there, and the curve of three.js throws when asked for a point at it; the
  reals have no such value and the quotient of the model is 0. What is claimed below of
  the sampler returning a sample is therefore claimed for a selected section of non-zero
  width, and the example tables have no section of width zero.
\<close>

definition sampleSection ::
  "TrackSection \<Rightarrow> real \<Rightarrow> Curve \<Rightarrow> LoopSegment list \<Rightarrow> TrackPoint list \<Rightarrow> bool
     \<Rightarrow> Sample option" where
  "sampleSection section progress spline loopSegments trackPoints looped =
     (let localT = (progress - startProgress section)
                     / (endProgress section - startProgress section)
      in case (sectionType section, rollFrame section) of
           (Roll, Some frame) \<Rightarrow> Some (sampleBarrelRollAnalytically frame localT)
         | _ \<Rightarrow>
           (case (splineStartT section, splineEndT section) of
              (Some startT, Some endT) \<Rightarrow>
                Some (sampleSpline section localT startT endT spline loopSegments trackPoints looped)
            | _ \<Rightarrow> None))"

definition sampleHybridTrack ::
  "real \<Rightarrow> TrackSection list \<Rightarrow> Curve \<Rightarrow> LoopSegment list \<Rightarrow> TrackPoint list \<Rightarrow> bool
     \<Rightarrow> Sample option" where
  "sampleHybridTrack progress secs spline loopSegments trackPoints looped =
     (if length secs = 0 then None
      else (let p = clampProgress progress
            in sampleSection (selectSection p secs) p spline loopSegments trackPoints looped))"

section \<open>Interchange values\<close>

text \<open>
  \<^verbatim>\<open>importCoaster\<close> inspects the value that \<^verbatim>\<open>JSON.parse\<close> returns. The parser is
  the platform's; its result is the input of the model. A number literal beyond the
  range of a double parses to an infinity, which is why the source asks \<^verbatim>\<open>isFinite\<close>
  of the coordinates; \<open>JInfinity\<close> stands for the two infinities. An object is the list
  of its members in the order of the text, and of two members with the same key the
  later one counts.
\<close>

datatype json =
    JNull
  | JBool bool
  | JNumber real
  | JInfinity bool
  | JString string
  | JArray "json list"
  | JObject "(string \<times> json) list"

text \<open>Property access; \<open>None\<close> is \<^verbatim>\<open>undefined\<close>.\<close>

fun getProp :: "json \<Rightarrow> string \<Rightarrow> json option" where
  "getProp (JObject members) key = map_of (rev members) key"
| "getProp v key = None"

fun truthy :: "json option \<Rightarrow> bool" where
  "truthy None = False"
| "truthy (Some JNull) = False"
| "truthy (Some (JBool b)) = b"
| "truthy (Some (JNumber r)) = (r \<noteq> 0)"
| "truthy (Some (JInfinity s)) = True"
| "truthy (Some (JString s)) = (s \<noteq> [])"
| "truthy (Some (JArray xs)) = True"
| "truthy (Some (JObject members)) = True"

fun typeofObject :: "json \<Rightarrow> bool" where
  "typeofObject JNull = True"
| "typeofObject (JArray xs) = True"
| "typeofObject (JObject members) = True"
| "typeofObject v = False"

fun typeofNumber :: "json option \<Rightarrow> bool" where
  "typeofNumber (Some (JNumber r)) = True"
| "typeofNumber (Some (JInfinity s)) = True"
| "typeofNumber v = False"

fun typeofString :: "json option \<Rightarrow> bool" where
  "typeofString (Some (JString s)) = True"
| "typeofString v = False"

text \<open>\<^verbatim>\<open>typeof n === 'number' && isFinite(n)\<close>\<close>

fun finiteNumber :: "json \<Rightarrow> bool" where
  "finiteNumber (JNumber r) = True"
| "finiteNumber v = False"

text \<open>\<^verbatim>\<open>Array.isArray(v) && v.length === 3\<close>\<close>

fun arrayOfThree :: "json option \<Rightarrow> bool" where
  "arrayOfThree (Some (JArray xs)) = (length xs = 3)"
| "arrayOfThree v = False"

text \<open>
  \<^verbatim>\<open>String.prototype.trim\<close>. A character of the model is a code unit below 256, and
  the strings of the model are the JavaScript strings made of such code units; among
  them the white space and line terminators of the language are the tab, the line feed,
  the vertical tab, the form feed, the carriage return, the space and the no-break space.
\<close>

definition isWhiteSpace :: "char \<Rightarrow> bool" where
  "isWhiteSpace c \<longleftrightarrow>
     c \<in> {CHR 0x09, CHR 0x0A, CHR 0x0B, CHR 0x0C, CHR 0x0D, CHR '' '', CHR 0xA0}"

definition trim :: "string \<Rightarrow> string" where
  "trim s = rev (dropWhile isWhiteSpace (rev (dropWhile isWhiteSpace s)))"

section \<open>The store\<close>

datatype CoasterMode = Build | Ride | Preview

record RollerCoasterState =
  mode :: CoasterMode
  trackPoints :: "TrackPoint list"
  loopSegments :: "LoopSegment list"
  selectedPointId :: "string option"
  rideProgress :: real
  isRiding :: bool
  rideSpeed :: real
  isDraggingPoint :: bool
  isAddingPoints :: bool
  isLooped :: bool
  hasChainLift :: bool
  showWoodSupports :: bool
  isNightMode :: bool
  cameraTarget :: "vec3 option"
  savedCoasters :: json
  currentCoasterName :: "string option"

definition removeTrackPoint :: "string \<Rightarrow> RollerCoasterState \<Rightarrow> RollerCoasterState" where
  "removeTrackPoint ident state =
     state\<lparr> trackPoints := filter (\<lambda>p. pointId p \<noteq> ident) (trackPoints state),
            selectedPointId :=
              (if selectedPointId state = Some ident then None else selectedPointId state) \<rparr>"

text \<open>
  \<^verbatim>\<open>createLoopAtPoint\<close>; \<open>now\<close> is the decimal text of \<^verbatim>\<open>Date.now()\<close>, which the
  source puts into the identifier of the new segment.
\<close>

definition createLoopAtPoint :: "string \<Rightarrow> string \<Rightarrow> RollerCoasterState \<Rightarrow> RollerCoasterState" where
  "createLoopAtPoint ident now state =
     (case List.find (\<lambda>p. pointId p = ident) (trackPoints state) of
        None \<Rightarrow> state
      | Some entryPoint \<Rightarrow>
          if hasLoop entryPoint = Some True then state
          else (let loopRadius = 5;
                    loopPitch = 12;
                    loopSegment = \<lparr> segId = ''loop-'' @ now, entryPointId = ident,
                                    segRadius = loopRadius, segPitch = loopPitch \<rparr>;
                    newTrackPoints =
                      map (\<lambda>p. if pointId p = ident then p\<lparr> hasLoop := Some True \<rparr> else p)
                        (trackPoints state)
                in state\<lparr> trackPoints := newTrackPoints,
                          loopSegments := loopSegments state @ [loopSegment] \<rparr>))"

definition clearTrack :: "RollerCoasterState \<Rightarrow> RollerCoasterState" where
  "clearTrack state =
     state\<lparr> trackPoints := [], loopSegments := [], selectedPointId := None,
            rideProgress := 0, isRiding := False \<rparr>"

definition setRideProgress :: "real \<Rightarrow> RollerCoasterState \<Rightarrow> RollerCoasterState" where
  "setRideProgress progress state = state\<lparr> rideProgress := progress \<rparr>"

definition startRide :: "RollerCoasterState \<Rightarrow> RollerCoasterState" where
  "startRide state =
     (if length (trackPoints state) \<ge> 2
      then state\<lparr> mode := Ride, isRiding := True, rideProgress := 0 \<rparr>
      else state)"

definition stopRide :: "RollerCoasterState \<Rightarrow> RollerCoasterState" where
  "stopRide state = state\<lparr> mode := Build, isRiding := False, rideProgress := 0 \<rparr>"

section \<open>Import\<close>

text \<open>The checks of \<^verbatim>\<open>importCoaster\<close> on one entry of \<^verbatim>\<open>trackPoints\<close>, in its order.\<close>

definition validLoopMeta :: "json \<Rightarrow> bool" where
  "validLoopMeta lm =
     (if \<not> arrayOfThree (getProp lm ''entryPos'') then False
      else if \<not> arrayOfThree (getProp lm ''forward'') then False
      else if \<not> arrayOfThree (getProp lm ''up'') then False
      else if \<not> arrayOfThree (getProp lm ''right'') then False
      else if \<not> typeofNumber (getProp lm ''radius'') \<or> \<not> typeofNumber (getProp lm ''theta'')
      then False
      else True)"

definition validTrackPoint :: "json \<Rightarrow> bool" where
  "validTrackPoint pt =
     (if \<not> truthy (Some pt) \<or> \<not> typeofObject pt then False
      else case getProp pt ''position'' of
             Some (JArray coords) \<Rightarrow>
               if length coords \<noteq> 3 then False
               else if \<not> list_all finiteNumber coords then False
               else if \<not> typeofNumber (getProp pt ''tilt'') then False
               else if \<not> typeofString (getProp pt ''id'') then False
               else (case getProp pt ''loopMeta'' of
                       None \<Rightarrow> True
                     | Some lm \<Rightarrow> if truthy (Some lm) then validLoopMeta lm else True)
           | _ \<Rightarrow> False)"

fun validateTrackPoints :: "json list \<Rightarrow> bool" where
  "validateTrackPoints [] = True"
| "validateTrackPoints (pt # rest) =
     (if \<not> validTrackPoint pt then False else validateTrackPoints rest)"

text \<open>
  The two readings of the clock in \<^verbatim>\<open>importCoaster\<close>: the decimal text of the first
  goes into the identifier, the second is the time stamp.
\<close>

record ImportClock =
  idTime :: string
  stampTime :: real

definition validCoaster :: "json \<Rightarrow> string \<Rightarrow> json list \<Rightarrow> ImportClock \<Rightarrow> json" where
  "validCoaster coaster name pts clock =
     JObject
       [(''id'', JString (''coaster-'' @ idTime clock)),
        (''name'', JString (trim name)),
        (''timestamp'', JNumber (stampTime clock)),
        (''trackPoints'', JArray pts),
        (''loopSegments'',
           (case getProp coaster ''loopSegments'' of
              None \<Rightarrow> JArray []
            | Some segs \<Rightarrow> if truthy (Some segs) then segs else JArray [])),
        (''isLooped'', JBool (truthy (getProp coaster ''isLooped''))),
        (''hasChainLift'', JBool (getProp coaster ''hasChainLift'' \<noteq> Some (JBool False))),
        (''showWoodSupports'', JBool (truthy (getProp coaster ''showWoodSupports'')))]"

text \<open>
  The browser's storage under the key of the saves is the value its text parses to, or
  \<open>None\<close> when the key is absent or its text empty or not JSON. \<^verbatim>\<open>persistSavedCoasters\<close>
  writes the text of a value, which reads back as that value (the model leaves out
  that the text of an infinity is \<^verbatim>\<open>null\<close>).
\<close>

type_synonym storage = "json option"

definition loadSavedCoasters :: "storage \<Rightarrow> json" where
  "loadSavedCoasters store = (case store of None \<Rightarrow> JArray [] | Some v \<Rightarrow> v)"

text \<open>
  \<^verbatim>\<open>importCoaster\<close>. \<open>parsed\<close> is the result of \<^verbatim>\<open>JSON.parse\<close>, \<open>None\<close> when it
  throws; \<open>setItemOk\<close> says whether the write to the storage succeeds (it throws when the
  quota is exceeded). Every exception inside ends in the \<^verbatim>\<open>catch\<close>, which returns
  \<^verbatim>\<open>false\<close>: a parse error, \<^verbatim>\<open>push\<close> on a stored value that is not an array, and
  the failed write.
\<close>

definition importCoaster ::
  "json option \<Rightarrow> ImportClock \<Rightarrow> bool \<Rightarrow> storage \<times> RollerCoasterState
     \<Rightarrow> bool \<times> storage \<times> RollerCoasterState" where
  "importCoaster parsed clock setItemOk env =
     (case parsed of
        None \<Rightarrow> (False, env)
      | Some coaster \<Rightarrow>
          if \<not> truthy (Some coaster) \<or> \<not> typeofObject coaster then (False, env)
          else case getProp coaster ''name'' of
                 Some (JString name) \<Rightarrow>
                   if trim name = [] then (False, env)
                   else (case getProp coaster ''trackPoints'' of
                           Some (JArray pts) \<Rightarrow>
                             if \<not> validateTrackPoints pts then (False, env)
                             else (case loadSavedCoasters (fst env) of
                                     JArray coasters \<Rightarrow>
                                       (let pushed =
                                              JArray (coasters @ [validCoaster coaster name pts clock])
                                        in if setItemOk
                                           then (True, Some pushed,
                                                 (snd env)\<lparr> savedCoasters := pushed \<rparr>)
                                           else (False, env))
                                   | _ \<Rightarrow> (False, env))
                         | _ \<Rightarrow> (False, env))
               | _ \<Rightarrow> (False, env))"

section \<open>Traversal\<close>

text \<open>
  The tick of RideCamera.tsx (\<^verbatim>\<open>useFrame\<close>). It reads the store, the memo of the
  section table and the component's refs, and writes the store, the refs and the camera.
\<close>

record RideMemo =
  memoSections :: "TrackSection list"
  totalArcLength :: real
  firstPeakProgress :: real

record RideRefs =
  curveRef :: "Curve option"
  previousCameraPos :: vec3
  previousLookAt :: vec3
  maxHeightReached :: real
  transportedUp :: vec3
  lastProgress :: real

record Camera =
  cameraPosition :: vec3
  cameraUp :: vec3
  cameraLookAt :: vec3

text \<open>The remainder \<^verbatim>\<open>x % 1\<close> of JavaScript, which truncates towards zero.\<close>

definition remainderOne :: "real \<Rightarrow> real" where
  "remainderOne x = x - of_int (if 0 \<le> x then \<lfloor>x\<rfloor> else \<lceil>x\<rceil>)"

definition applyAxisAngle :: "vec3 \<Rightarrow> vec3 \<Rightarrow> real \<Rightarrow> vec3" where
  "applyAxisAngle v axis angle = applyQuaternion v (setFromAxisAngle axis angle)"

definition nextTransportedUp ::
  "RideMemo \<Rightarrow> Curve \<Rightarrow> RollerCoasterState \<Rightarrow> RideRefs \<Rightarrow> Sample \<Rightarrow> vec3" where
  "nextTransportedUp memo curve state refs sample =
     (if inRoll sample then sampleUp sample
      else case sampleHybridTrack (lastProgress refs) (memoSections memo) curve
                  (loopSegments state) (trackPoints state) (isLooped state) of
             None \<Rightarrow> sampleUp sample
           | Some prevSample \<Rightarrow>
               if inRoll prevSample then sampleUp sample
               else (let prevT = tangent prevSample;
                         rotationAxis = crossVectors prevT (tangent sample);
                         rotationAngle = arccos (min 1 (max (-1) (vdot prevT (tangent sample))));
                         u0 = (if lengthSq rotationAxis > 0.0001 \<and> rotationAngle > 0.0001
                               then applyAxisAngle (transportedUp refs) (normalize rotationAxis)
                                      rotationAngle
                               else transportedUp refs);
                         d = vdot u0 (tangent sample);
                         u1 = vsub u0 (multiplyScalar (tangent sample) d)
                     in if lengthSq u1 > 0.0001 then normalize u1
                        else (let e = Vector3 0 1 0; d2 = vdot e (tangent sample)
                              in normalize (vsub e (multiplyScalar (tangent sample) d2)))))"

definition placeCamera ::
  "RideMemo \<Rightarrow> Curve \<Rightarrow> RollerCoasterState \<Rightarrow> real \<Rightarrow> Sample \<Rightarrow> RideRefs \<times> Camera
     \<Rightarrow> RideRefs \<times> Camera" where
  "placeCamera memo curve state newProgress sample rc =
     (let refs = fst rc;
          baseUpVector = nextTransportedUp memo curve state refs sample;
          cameraHeight = 1.2;
          cameraOffset = multiplyScalar baseUpVector cameraHeight;
          targetCameraPos = vadd (point sample) cameraOffset;
          lookDistance = 10;
          targetLookAt = vadd (point sample) (multiplyScalar (tangent sample) lookDistance);
          newPos = lerp (previousCameraPos refs) targetCameraPos 0.5;
          newLook = lerp (previousLookAt refs) targetLookAt 0.5
      in (refs\<lparr> transportedUp := baseUpVector, lastProgress := newProgress,
                  previousCameraPos := newPos, previousLookAt := newLook \<rparr>,
          \<lparr> cameraPosition = newPos, cameraUp = baseUpVector, cameraLookAt = newLook \<rparr>))"

text \<open>
  The speed of the tick and the progress it advances to, before the test against 1. The
  divisor is the total arc length of the memo, which is 0 for a table without length.
\<close>

definition lifting :: "RideMemo \<Rightarrow> RollerCoasterState \<Rightarrow> bool" where
  "lifting memo state \<longleftrightarrow> hasChainLift state \<and> rideProgress state < firstPeakProgress memo"

definition tickSpeed :: "RideMemo \<Rightarrow> RollerCoasterState \<Rightarrow> real" where
  "tickSpeed memo state =
     (if lifting memo state then 0.9 * rideSpeed state else 12.0 * rideSpeed state)"

definition advancedProgress :: "RideMemo \<Rightarrow> real \<Rightarrow> RollerCoasterState \<Rightarrow> real" where
  "advancedProgress memo delta state =
     rideProgress state + (tickSpeed memo state * delta) / totalArcLength memo"

definition rideTick ::
  "RideMemo \<Rightarrow> real \<Rightarrow> RollerCoasterState \<times> RideRefs \<times> Camera
     \<Rightarrow> RollerCoasterState \<times> RideRefs \<times> Camera" where
  "rideTick memo delta world =
     (let state = fst world; refs = fst (snd world); cam = snd (snd world)
      in case curveRef refs of
           None \<Rightarrow> world
         | Some curve \<Rightarrow>
             if \<not> isRiding state \<or> length (memoSections memo) = 0 then world
             else case sampleHybridTrack (rideProgress state) (memoSections memo) curve
                         (loopSegments state) (trackPoints state) (isLooped state) of
                    None \<Rightarrow> world
                  | Some currentSample \<Rightarrow>
                      (let currentHeight = vy (point currentSample);
                           refs1 = (if lifting memo state
                                    then refs\<lparr> maxHeightReached :=
                                                  max (maxHeightReached refs) currentHeight \<rparr>
                                    else refs);
                           newProgress0 = advancedProgress memo delta state
                       in if newProgress0 \<ge> 1 \<and> \<not> isLooped state
                          then (stopRide state, refs1, cam)
                          else (let newProgress =
                                      (if newProgress0 \<ge> 1 then remainderOne newProgress0
                                       else newProgress0);
                                    refs2 =
                                      (if newProgress0 \<ge> 1 \<and> hasChainLift state
                                       then refs1\<lparr> maxHeightReached := vy (getPoint curve 0) \<rparr>
                                       else refs1);
                                    state1 = setRideProgress newProgress state
                                in case sampleHybridTrack newProgress (memoSections memo) curve
                                          (loopSegments state) (trackPoints state) (isLooped state) of
                                     None \<Rightarrow> (state1, refs2, cam)
                                   | Some sample \<Rightarrow>
                                       (state1,
                                        placeCamera memo curve state newProgress sample
                                          (refs2, cam)))))"

text \<open>
  A section as the table builder pushes it: a roll with its frame, or a spline span with
  both ends of its parameter range.
\<close>

definition wellFormed :: "TrackSection \<Rightarrow> bool" where
  "wellFormed s \<longleftrightarrow>
     (sectionType s = Roll \<and> rollFrame s \<noteq> None)
     \<or> (splineStartT s \<noteq> None \<and> splineEndT s \<noteq> None)"

text \<open>The section the sampler's scan is specified to find.\<close>

definition inRange :: "real \<Rightarrow> TrackSection \<Rightarrow> bool" where
  "inRange p s \<longleftrightarrow> startProgress s \<le> p \<and> p < endProgress s"

definition owningSection :: "real \<Rightarrow> TrackSection list \<Rightarrow> TrackSection" where
  "owningSection p secs = (case List.find (inRange p) secs of Some s \<Rightarrow> s | None \<Rightarrow> last secs)"


section \<open>Example tracks\<close>

text \<open>
  The loop of the scenario: radius 5, pitch 12, entered with forward \<open>(1,0,0)\<close> and up
  \<open>(0,1,0)\<close>; its right vector is computed as \<open>computeRollFrame\<close> does, from the
  cross product of forward and up.
\<close>

definition exampleFrame :: "vec3 \<Rightarrow> BarrelRollFrame" where
  "exampleFrame e =
     \<lparr> entryPos = e, forward = Vector3 1 0 0, up = Vector3 0 1 0,
       right = normalize (crossVectors (Vector3 1 0 0) (Vector3 0 1 0)),
       radius = 5, pitch = 12 \<rparr>"

text \<open>
  Two control points at \<open>(0,0,0)\<close> and \<open>(10,0,0)\<close> on an open path. The Catmull-Rom
  curve through two points is the straight segment between them, traversed at constant
  speed, with tangent \<open>(1,0,0)\<close> everywhere.
\<close>

definition lineCurve :: Curve where
  "lineCurve = \<lparr> getPoint = (\<lambda>t. Vector3 (10 * t) 0 0), getTangent = (\<lambda>t. Vector3 1 0 0) \<rparr>"

definition straightSpline :: "vec3 list \<Rightarrow> bool \<Rightarrow> Curve" where
  "straightSpline pts looped = lineCurve"

definition straightTrack :: "TrackPoint list" where
  "straightTrack =
     [\<lparr> pointId = ''point-1'', position = Vector3 0 0 0, tilt = 0, hasLoop = None \<rparr>,
      \<lparr> pointId = ''point-2'', position = Vector3 10 0 0, tilt = 0, hasLoop = None \<rparr>]"

text \<open>The same track after \<open>createLoopAtPoint\<close> on its first point.\<close>

definition loopTrack :: "TrackPoint list" where
  "loopTrack =
     [\<lparr> pointId = ''point-1'', position = Vector3 0 0 0, tilt = 0, hasLoop = Some True \<rparr>,
      \<lparr> pointId = ''point-2'', position = Vector3 10 0 0, tilt = 0, hasLoop = None \<rparr>]"

definition loopAtStart :: "LoopSegment list" where
  "loopAtStart =
     [\<lparr> segId = ''loop-1'', entryPointId = ''point-1'', segRadius = 5, segPitch = 12 \<rparr>]"

text \<open>
  The section table of the track with the loop, and the progress value in the middle of
  the loop's range.
\<close>

definition loopArc :: real where
  "loopArc = computeRollArcLength 5 12"

definition loopShare :: real where
  "loopShare = loopArc / (loopArc + 10)"

definition loopTable :: "TrackSection list" where
  "loopTable = fst (buildSections straightSpline loopTrack loopAtStart False)"

definition midLoopProgress :: real where
  "midLoopProgress = endProgress (loopTable ! 0) / 2"


section \<open>Example rides\<close>

text \<open>The store as \<^verbatim>\<open>create\<close> initialises it, over the browser's storage.\<close>

definition initialState :: "storage \<Rightarrow> RollerCoasterState" where
  "initialState store =
     \<lparr> mode = Build, trackPoints = [], loopSegments = [], selectedPointId = None,
       rideProgress = 0, isRiding = False, rideSpeed = 1.0, isDraggingPoint = False,
       isAddingPoints = True, isLooped = False, hasChainLift = True,
       showWoodSupports = False, isNightMode = False, cameraTarget = None,
       savedCoasters = loadSavedCoasters store, currentCoasterName = None \<rparr>"

text \<open>The store after two calls of \<^verbatim>\<open>addTrackPoint\<close>.\<close>

definition twoPointState :: RollerCoasterState where
  "twoPointState = (initialState None)\<lparr> trackPoints := straightTrack \<rparr>"

text \<open>
  A ride on the open two-point track, one tick before its end. On a level track the scan
  for the first peak finds no climb and leaves the peak progress at its initial 0.2.
\<close>

definition straightMemo :: RideMemo where
  "straightMemo =
     \<lparr> memoSections = fst (buildSections straightSpline straightTrack [] False),
       totalArcLength = snd (buildSections straightSpline straightTrack [] False),
       firstPeakProgress = 0.2 \<rparr>"

definition openRide :: RollerCoasterState where
  "openRide = (initialState None)
     \<lparr> trackPoints := straightTrack, mode := Ride, isRiding := True, rideProgress := 0.99 \<rparr>"

definition openRefs :: RideRefs where
  "openRefs =
     \<lparr> curveRef = Some lineCurve, previousCameraPos = Vector3 0 0 0,
       previousLookAt = Vector3 0 0 0, maxHeightReached = 0,
       transportedUp = Vector3 0 1 0, lastProgress = 0.98 \<rparr>"

definition restingCamera :: Camera where
  "restingCamera =
     \<lparr> cameraPosition = Vector3 0 0 0, cameraUp = Vector3 0 1 0, cameraLookAt = Vector3 0 0 0 \<rparr>"

text \<open>
  The same two points as a closed circuit. Closed, the Catmull-Rom curve of three.js
  through two points runs out to the second point and back along the segment between
  them, each span a cubic with tangent zero at both ends; its tangent query is the
  normalised difference of the points at \<open>t - 0.0001\<close> and \<open>t + 0.0001\<close>, both kept
  inside \<open>[0, 1]\<close>. Each span measures 10 in chords.
\<close>

definition circuitPoint :: "real \<Rightarrow> vec3" where
  "circuitPoint t =
     (if t < 1 / 2
      then (let w = 2 * t in Vector3 (30 * (w * w) - 20 * (w * w * w)) 0 0)
      else (let w = 2 * t - 1 in Vector3 (10 - 30 * (w * w) + 20 * (w * w * w)) 0 0))"

definition circuitCurve :: Curve where
  "circuitCurve =
     \<lparr> getPoint = circuitPoint,
       getTangent = (\<lambda>t. normalize (vsub (circuitPoint (min 1 (t + 0.0001)))
                                        (circuitPoint (max 0 (t - 0.0001))))) \<rparr>"

definition circuitMemo :: RideMemo where
  "circuitMemo =
     \<lparr> memoSections =
         [\<lparr> sectionType = Spline, startProgress = 0, endProgress = 1 / 2, arcLength = 10,
            rollFrame = None, splineStartT = Some 0, splineEndT = Some (1 / 2),
            pointIndex = Some 0 \<rparr>,
          \<lparr> sectionType = Spline, startProgress = 1 / 2, endProgress = 1, arcLength = 10,
            rollFrame = None, splineStartT = Some (1 / 2), splineEndT = Some 1,
            pointIndex = Some 1 \<rparr>],
       totalArcLength = 20, firstPeakProgress = 0.2 \<rparr>"

definition circuitRide :: RollerCoasterState where
  "circuitRide = openRide\<lparr> isLooped := True \<rparr>"

definition circuitRefs :: RideRefs where
  "circuitRefs = openRefs\<lparr> curveRef := Some circuitCurve, maxHeightReached := 3 \<rparr>"

section \<open>The validation the interchange format asks for\<close>













text \<open>The coaster that a successful import has appended, and one field of it.\<close>

definition lastSaved :: "json \<Rightarrow> json option" where
  "lastSaved saved =
     (case saved of JArray coasters \<Rightarrow> (if coasters = [] then None else Some (last coasters))
      | _ \<Rightarrow> None)"

definition storedField :: "string \<Rightarrow> bool \<times> storage \<times> RollerCoasterState \<Rightarrow> json option" where
  "storedField key result =
     (case lastSaved (savedCoasters (snd (snd result))) of
        None \<Rightarrow> None
      | Some coaster \<Rightarrow> getProp coaster key)"

section \<open>Example saves\<close>

definition pointOne :: json where
  "pointOne =
     JObject [(''id'', JString ''point-1''),
              (''position'', JArray [JNumber 0, JNumber 0, JNumber 0]),
              (''tilt'', JNumber 0)]"




definition savedWith :: "json \<Rightarrow> json \<Rightarrow> json" where
  "savedWith name pts =
     JObject [(''id'', JString ''coaster-1''), (''name'', name),
              (''timestamp'', JNumber 1), (''trackPoints'', pts),
              (''loopSegments'', JArray []), (''isLooped'', JBool False),
              (''hasChainLift'', JBool True), (''showWoodSupports'', JBool False)]"

definition savedTrack :: "json list \<Rightarrow> json" where
  "savedTrack pts = savedWith (JString ''Test'') (JArray pts)"

definition bareCoaster :: json where
  "bareCoaster = JObject [(''name'', JString ''Bare''), (''trackPoints'', JArray [pointOne])]"

definition chainlessCoaster :: json where
  "chainlessCoaster =
     JObject [(''name'', JString '' Chainless ''), (''trackPoints'', JArray [pointOne]),
              (''hasChainLift'', JBool False), (''isLooped'', JNumber 1)]"

definition looseSegments :: "json list" where
  "looseSegments = [JObject [(''id'', JString ''loop-1'')], JString ''no segment'', JNull]"

definition looseCoaster :: json where
  "looseCoaster =
     JObject [(''name'', JString ''Loose''), (''trackPoints'', JArray [pointOne]),
              (''loopSegments'', JArray looseSegments), (''hasChainLift'', JNull)]"





text \<open>A save whose \<^verbatim>\<open>loopSegments\<close> is present and null.\<close>

definition nullSegmentsCoaster :: json where
  "nullSegmentsCoaster =
     JObject [(''name'', JString ''Null''), (''trackPoints'', JArray [pointOne]),
              (''loopSegments'', JNull)]"

definition oneSave :: "storage \<times> RollerCoasterState" where
  "oneSave = (Some (JArray [savedTrack [pointOne]]), initialState (Some (JArray [savedTrack [pointOne]])))"

definition importClock :: ImportClock where
  "importClock = \<lparr> idTime = ''1700000000000'', stampTime = 1700000000001 \<rparr>"

section \<open>Facts about vectors\<close>

lemma vec3_eq_iff: "a = b \<longleftrightarrow> vx a = vx b \<and> vy a = vy b \<and> vz a = vz b"
  by (cases a, cases b) simp

lemma lengthSq_nonneg: "0 \<le> lengthSq a"
  by (simp add: lengthSq_def)

lemma vlength_nonneg: "0 \<le> vlength a"
  by (simp add: vlength_def lengthSq_nonneg)

lemma lengthSq_multiplyScalar: "lengthSq (multiplyScalar a s) = s * s * lengthSq a"
  by (simp add: lengthSq_def multiplyScalar_def algebra_simps)

lemma vlength_multiplyScalar: "vlength (multiplyScalar a s) = \<bar>s\<bar> * vlength a"
proof -
  have "sqrt (s * s * lengthSq a) = sqrt (s * s) * sqrt (lengthSq a)"
    by (rule real_sqrt_mult)
  then show ?thesis
    by (simp add: vlength_def lengthSq_multiplyScalar)
qed

lemma vlength_normalize: "vlength a \<noteq> 0 \<Longrightarrow> vlength (normalize a) = 1"
  using vlength_nonneg [of a] by (simp add: normalize_def vlength_multiplyScalar)

lemma normalize_unit: "vlength a = 1 \<Longrightarrow> normalize a = a"
  by (cases a) (simp add: normalize_def multiplyScalar_def)

lemma normalize_scaled_unit:
  assumes "vlength a = 1" and "0 < s"
  shows "normalize (multiplyScalar a s) = a"
proof -
  have len: "vlength (multiplyScalar a s) = s"
    using assms by (simp add: vlength_multiplyScalar)
  have "normalize (multiplyScalar a s) = multiplyScalar (multiplyScalar a s) (1 / s)"
    using assms(2) by (simp add: normalize_def len)
  also have "\<dots> = a"
    using assms(2) by (cases a) (simp add: multiplyScalar_def)
  finally show ?thesis .
qed

lemma addScaledVector_zero [simp]: "addScaledVector a v 0 = a"
  by (cases a) (simp add: addScaledVector_def)

lemma addScaledVector_zeroVector_one [simp]: "addScaledVector zeroVector v 1 = v"
  by (cases v) (simp add: addScaledVector_def zeroVector_def)

section \<open>The eased angle\<close>

lemma theta_0: "theta 0 = 0"
  by (simp add: theta_def)

lemma theta_1: "theta 1 = 2 * pi"
  by (simp add: theta_def twoPi_def)

lemma dThetaDt_0: "dThetaDt 0 = 0"
  by (simp add: dThetaDt_def)

lemma dThetaDt_1: "dThetaDt 1 = 0"
  by (simp add: dThetaDt_def twoPi_def)

lemma theta_half: "theta (1 / 2) = pi"
  by (simp add: theta_def twoPi_def)

lemma dThetaDt_half: "dThetaDt (1 / 2) = 4 * pi"
  by (simp add: dThetaDt_def twoPi_def)

lemma theta_has_derivative: "(theta has_real_derivative dThetaDt t) (at t)"
proof -
  have nz: "twoPi \<noteq> 0"
    by (simp add: twoPi_def)
  have "((\<lambda>t. twoPi * (t - sin (twoPi * t) / twoPi)) has_real_derivative
           twoPi * (1 - cos (twoPi * t) * twoPi / twoPi)) (at t)"
    by (auto intro!: derivative_eq_intros simp: nz)
  then show ?thesis
    using nz by (simp add: theta_def [abs_def] dThetaDt_def)
qed

section \<open>Loop entry and exit\<close>

lemma rollTangent_still:
  assumes "dThetaDt t = 0" "vlength (forward frame) = 1" "0 < pitch frame"
  shows "rollTangent frame t = forward frame"
  using assms by (simp add: rollTangent_def normalize_scaled_unit)

lemma rotatedUp_full_turn:
  assumes "cos (theta t) = 1" "sin (theta t) = 0" "vlength (up frame) = 1"
  shows "rotatedUp frame t = up frame"
  using assms by (simp add: rotatedUp_def normalize_unit)

lemma distanceTo_self [simp]: "distanceTo a a = 0"
  by (simp add: distanceTo_def vsub_def vlength_def lengthSq_def)

lemma exampleFrame_right: "normalize (crossVectors (Vector3 1 0 0) (Vector3 0 1 0)) = Vector3 0 0 1"
  by (simp add: crossVectors_def normalize_def vlength_def lengthSq_def multiplyScalar_def)

lemma exampleFrame_orthonormal: "orthonormal (exampleFrame e)"
  by (simp add: orthonormal_def exampleFrame_def exampleFrame_right vlength_def lengthSq_def vdot_def)

text \<open>
  Claim C1. For a loop frame with positive radius and pitch and an orthonormal entry basis,
  the closed-form loop evaluator returns at \<open>t = 0\<close> and at \<open>t = 1\<close> a tangent equal
  to the entry forward and an up equal to the entry up (exactly, so within the tolerance
  of one thousandth): the eased angle is 0 at \<open>t = 0\<close> and \<open>2\<pi>\<close> at \<open>t = 1\<close>, and
  its derivative, which is what the source computes as \<open>dThetaDt\<close>, is 0 at both ends.
\<close>

theorem loop_endpoints_match_entry:
  assumes "0 < radius frame" and "0 < pitch frame" and "orthonormal frame"
  shows "theta 0 = 0 \<and> theta 1 = 2 * pi \<and> dThetaDt 0 = 0 \<and> dThetaDt 1 = 0
     \<and> (theta has_real_derivative 0) (at 0) \<and> (theta has_real_derivative 0) (at 1)
     \<and> tangent (sampleBarrelRollAnalytically frame 0) = forward frame
     \<and> sampleUp (sampleBarrelRollAnalytically frame 0) = up frame
     \<and> tangent (sampleBarrelRollAnalytically frame 1) = forward frame
     \<and> sampleUp (sampleBarrelRollAnalytically frame 1) = up frame
     \<and> distanceTo (tangent (sampleBarrelRollAnalytically frame 0)) (forward frame) < 1 / 1000
     \<and> distanceTo (sampleUp (sampleBarrelRollAnalytically frame 0)) (up frame) < 1 / 1000
     \<and> distanceTo (tangent (sampleBarrelRollAnalytically frame 1)) (forward frame) < 1 / 1000
     \<and> distanceTo (sampleUp (sampleBarrelRollAnalytically frame 1)) (up frame) < 1 / 1000"
proof -
  have f: "vlength (forward frame) = 1" and u: "vlength (up frame) = 1"
    using assms(3) by (simp_all add: orthonormal_def)
  have d0: "(theta has_real_derivative 0) (at 0)"
    using theta_has_derivative [of 0] by (simp add: dThetaDt_0)
  have d1: "(theta has_real_derivative 0) (at 1)"
    using theta_has_derivative [of 1] by (simp add: dThetaDt_1)
  have t0: "rollTangent frame 0 = forward frame"
    by (rule rollTangent_still) (simp_all add: dThetaDt_0 f assms(2))
  have t1: "rollTangent frame 1 = forward frame"
    by (rule rollTangent_still) (simp_all add: dThetaDt_1 f assms(2))
  have u0: "rotatedUp frame 0 = up frame"
    by (rule rotatedUp_full_turn) (simp_all add: theta_0 u)
  have u1: "rotatedUp frame 1 = up frame"
    by (rule rotatedUp_full_turn) (simp_all add: theta_1 u)
  show ?thesis
    by (simp add: sampleBarrelRollAnalytically_def theta_0 theta_1 dThetaDt_0 dThetaDt_1
        d0 d1 t0 t1 u0 u1)
qed

theorem loop_endpoints_match_entry_witness:
  "0 < radius (exampleFrame (Vector3 0 0 0)) \<and> 0 < pitch (exampleFrame (Vector3 0 0 0))
   \<and> orthonormal (exampleFrame (Vector3 0 0 0))
   \<and> tangent (sampleBarrelRollAnalytically (exampleFrame (Vector3 0 0 0)) 1) = Vector3 1 0 0
   \<and> sampleUp (sampleBarrelRollAnalytically (exampleFrame (Vector3 0 0 0)) 1) = Vector3 0 1 0"
proof -
  have r: "0 < radius (exampleFrame (Vector3 0 0 0))" and p: "0 < pitch (exampleFrame (Vector3 0 0 0))"
    by (simp_all add: exampleFrame_def)
  show ?thesis
    using loop_endpoints_match_entry [OF r p exampleFrame_orthonormal] r p exampleFrame_orthonormal
    by (simp add: exampleFrame_def)
qed

section \<open>The loop at its middle\<close>

text \<open>
  Claim C4, as amended. For the loop with radius 5 and pitch 12 entered with forward
  \<open>(1,0,0)\<close> and up \<open>(0,1,0)\<close>, the sample at \<open>s = 1/2\<close> lies \<open>pitch / 2 = 6\<close>
  ahead of the entry along forward and \<open>2 * radius = 10\<close> to the side, against the right
  vector; along up it is not displaced at all.
\<close>

theorem loop_midpoint_displacement:
  "rollPoint (exampleFrame e) (1 / 2) = vadd e (Vector3 6 0 (- 10))
   \<and> vdot (vsub (point (sampleBarrelRollAnalytically (exampleFrame e) (1 / 2))) e) (up (exampleFrame e)) = 0
   \<and> vdot (vsub (point (sampleBarrelRollAnalytically (exampleFrame e) (1 / 2))) e) (forward (exampleFrame e)) = 12 / 2
   \<and> vdot (vsub (point (sampleBarrelRollAnalytically (exampleFrame e) (1 / 2))) e) (right (exampleFrame e)) = - (2 * 5)"
  by (simp add: sampleBarrelRollAnalytically_def rollPoint_def exampleFrame_def exampleFrame_right
      theta_half addScaledVector_def vadd_def vsub_def vdot_def)

text \<open>
  Claim C4 as stated fails: at \<open>s = 1/2\<close> the height of the sample is the entry height,
  ten units short of the \<open>2 * radius\<close> the claim expects.
\<close>

theorem loop_midpoint_not_raised:
  "vdot (vsub (point (sampleBarrelRollAnalytically (exampleFrame (Vector3 0 0 0)) (1 / 2)))
              (entryPos (exampleFrame (Vector3 0 0 0))))
        (up (exampleFrame (Vector3 0 0 0))) = 0
   \<and> \<bar>vy (point (sampleBarrelRollAnalytically (exampleFrame (Vector3 0 0 0)) (1 / 2)))
        - vy (entryPos (exampleFrame (Vector3 0 0 0))) - 2 * 5\<bar> = 10"
  by (simp add: sampleBarrelRollAnalytically_def rollPoint_def exampleFrame_def exampleFrame_right
      theta_half addScaledVector_def vadd_def vsub_def vdot_def)

section \<open>The progress partition\<close>

lemma length_assignProgress [simp]: "length (assignProgress T r secs) = length secs"
  by (induction secs arbitrary: r) simp_all

lemma assignProgress_Nil_iff [simp]: "assignProgress T r secs = [] \<longleftrightarrow> secs = []"
  by (cases secs) simp_all









lemma rollStep_sections: "sections (rollStep c n i seg st) \<noteq> [] "
  by (simp add: rollStep_def Let_def)







section \<open>The example tracks, built\<close>

lemma sqrt_sum_ge: "0 \<le> x \<Longrightarrow> x \<le> sqrt (x * x + y * y)"
proof -
  assume x: "0 \<le> x"
  have "sqrt (x * x) \<le> sqrt (x * x + y * y)"
    by (rule real_sqrt_le_mono) simp
  moreover have "sqrt (x * x) = \<bar>x\<bar>"
    by (rule real_sqrt_abs2)
  ultimately show ?thesis
    using x by simp
qed

lemma rollArcStep_grows: "0 \<le> pit \<Longrightarrow> len + pit / 100 \<le> rollArcStep rad pit i len"
  unfolding rollArcStep_def Let_def
  by (intro add_left_mono sqrt_sum_ge) simp

lemma fold_rollArcStep_grows:
  "0 \<le> pit \<Longrightarrow> len + real n * (pit / 100) \<le> fold (rollArcStep rad pit) [0..<n] len"
proof (induction n)
  case 0
  then show ?case by simp
next
  case (Suc n)
  have "len + real (Suc n) * (pit / 100) = (len + real n * (pit / 100)) + pit / 100"
    by (simp add: algebra_simps)
  also have "\<dots> \<le> fold (rollArcStep rad pit) [0..<n] len + pit / 100"
    using Suc by simp
  also have "\<dots> \<le> rollArcStep rad pit n (fold (rollArcStep rad pit) [0..<n] len)"
    by (rule rollArcStep_grows [OF Suc.prems])
  finally show ?case by simp
qed

lemma computeRollArcLength_ge: "0 \<le> pit \<Longrightarrow> pit \<le> computeRollArcLength rad pit"
  using fold_rollArcStep_grows [of pit 0 100 rad] by (simp add: computeRollArcLength_def)

lemma fold_segmentStep_line:
  "fold (segmentStep lineCurve a b) [0..<n] len = len + real n * \<bar>b - a\<bar>"
proof (induction n)
  case 0
  then show ?case by simp
next
  case (Suc n)
  have "distanceTo (getPoint lineCurve (a + real n / 10 * (b - a)))
          (getPoint lineCurve (a + (real n + 1) / 10 * (b - a))) = \<bar>b - a\<bar>"
  proof -
    have "(10 * (a + real n / 10 * (b - a)) - 10 * (a + (real n + 1) / 10 * (b - a))) = a - b"
      by (simp add: field_simps)
    then show ?thesis
      by (simp add: distanceTo_def lineCurve_def vsub_def vlength_def lengthSq_def
          flip: power2_eq_square)
  qed
  then show ?case
    using Suc by (simp add: segmentStep_def Let_def algebra_simps)
qed

lemma segmentLength_line: "segmentLength lineCurve a b = 10 * \<bar>b - a\<bar>"
  by (simp add: segmentLength_def fold_segmentStep_line)

lemma unit_x [simp]: "vlength (Vector3 1 0 0) = 1" "normalize (Vector3 1 0 0) = Vector3 1 0 0"
  by (simp_all add: normalize_def vlength_def lengthSq_def multiplyScalar_def)

lemma unit_y [simp]: "vlength (Vector3 0 1 0) = 1" "normalize (Vector3 0 1 0) = Vector3 0 1 0"
  by (simp_all add: normalize_def vlength_def lengthSq_def multiplyScalar_def)

lemma unit_z [simp]: "vlength (Vector3 0 0 1) = 1" "normalize (Vector3 0 0 1) = Vector3 0 0 1"
  by (simp_all add: normalize_def vlength_def lengthSq_def multiplyScalar_def)

lemma initialBuildState_line:
  "initialBuildState lineCurve =
     \<lparr> sections = [], accumulatedLength = 0, rollOffset = Vector3 0 0 0,
       prevTangent = Vector3 1 0 0, prevUp = Vector3 0 1 0 \<rparr>"
  by (simp add: initialBuildState_def initialUp_def lineCurve_def Let_def vdot_def vsub_def
      multiplyScalar_def)




lemma lineCurve_simps [simp]:
  "getPoint lineCurve t = Vector3 (10 * t) 0 0" "getTangent lineCurve t = Vector3 1 0 0"
  by (simp_all add: lineCurve_def)

lemma transportUp_level:
  "transportUp (Vector3 1 0 0) (Vector3 0 1 0) (Vector3 1 0 0) = Vector3 0 1 0"
  by (simp add: transportUp_def clampDot_def Let_def vdot_def vsub_def multiplyScalar_def)

lemma splineStep_line:
  "splineStep lineCurve 1 0
     \<lparr> sections = secs, accumulatedLength = acc, rollOffset = off,
       prevTangent = Vector3 1 0 0, prevUp = Vector3 0 1 0 \<rparr> =
     \<lparr> sections = secs @
         [\<lparr> sectionType = Spline, startProgress = 0, endProgress = 0, arcLength = 10,
            rollFrame = None, splineStartT = Some 0, splineEndT = Some 1, pointIndex = Some 0 \<rparr>],
       accumulatedLength = acc + 10, rollOffset = off,
       prevTangent = Vector3 1 0 0, prevUp = Vector3 0 1 0 \<rparr>"
  by (simp add: splineStep_def Let_def segmentLength_line transportUp_level)

lemma straightTrack_indices: "[0..<length straightTrack] = [0, 1]"
  by (simp add: straightTrack_def)

lemma buildLoop_straight:
  "buildLoop lineCurve straightTrack [] False =
     \<lparr> sections =
         [\<lparr> sectionType = Spline, startProgress = 0, endProgress = 0, arcLength = 10,
            rollFrame = None, splineStartT = Some 0, splineEndT = Some 1, pointIndex = Some 0 \<rparr>],
       accumulatedLength = 10, rollOffset = Vector3 0 0 0,
       prevTangent = Vector3 1 0 0, prevUp = Vector3 0 1 0 \<rparr>"
proof -
  have len: "length straightTrack = 2"
    by (simp add: straightTrack_def)
  have s0: "buildStep lineCurve straightTrack Map.empty False 0 (initialBuildState lineCurve) =
      \<lparr> sections =
         [\<lparr> sectionType = Spline, startProgress = 0, endProgress = 0, arcLength = 10,
            rollFrame = None, splineStartT = Some 0, splineEndT = Some 1, pointIndex = Some 0 \<rparr>],
       accumulatedLength = 10, rollOffset = Vector3 0 0 0,
       prevTangent = Vector3 1 0 0, prevUp = Vector3 0 1 0 \<rparr>"
    by (simp add: buildStep_def Let_def len initialBuildState_line splineStep_line)
  have s1: "buildStep lineCurve straightTrack Map.empty False (Suc 0) st = st" for st
    by (simp add: buildStep_def Let_def len)
  show ?thesis
    by (simp add: buildLoop_def loopMapOf_def straightTrack_indices s0 s1)
qed


lemma buildSections_straight:
  "buildSections straightSpline straightTrack [] False =
     ([\<lparr> sectionType = Spline, startProgress = 0, endProgress = 1, arcLength = 10,
         rollFrame = None, splineStartT = Some 0, splineEndT = Some 1, pointIndex = Some 0 \<rparr>], 10)"
proof -
  have len: "length straightTrack = 2"
    by (simp add: straightTrack_def)
  show ?thesis
    by (simp add: buildSections_def getTrackCurve_def len straightSpline_def buildLoop_straight)
qed

lemma loopArc_pos: "0 < loopArc"
  using computeRollArcLength_ge [of 12 5] by (simp add: loopArc_def)

lemma loopShare_bounds: "0 < loopShare" "loopShare < 1"
  using loopArc_pos by (simp_all add: loopShare_def)

lemma computeRollFrame_line:
  "computeRollFrame lineCurve t (Vector3 1 0 0) (Vector3 0 1 0) rad pit off =
     \<lparr> entryPos = vadd (Vector3 (10 * t) 0 0) off, forward = Vector3 1 0 0, up = Vector3 0 1 0,
       right = Vector3 0 0 1, radius = rad, pitch = pit \<rparr>"
  by (simp add: computeRollFrame_def clampDot_def Let_def vdot_def vsub_def multiplyScalar_def
      crossVectors_def)

lemma rollStep_line:
  "rollStep lineCurve 1 0 \<lparr> segId = sid, entryPointId = pid, segRadius = 5, segPitch = 12 \<rparr>
     \<lparr> sections = secs, accumulatedLength = acc, rollOffset = Vector3 0 0 0,
       prevTangent = Vector3 1 0 0, prevUp = Vector3 0 1 0 \<rparr> =
     \<lparr> sections = secs @
         [\<lparr> sectionType = Roll, startProgress = 0, endProgress = 0, arcLength = loopArc,
            rollFrame = Some (exampleFrame (Vector3 0 0 0)), splineStartT = None,
            splineEndT = None, pointIndex = Some 0 \<rparr>],
       accumulatedLength = acc + loopArc, rollOffset = Vector3 12 0 0,
       prevTangent = Vector3 1 0 0, prevUp = Vector3 0 1 0 \<rparr>"
  by (simp add: rollStep_def Let_def computeRollFrame_line loopArc_def exampleFrame_def
      exampleFrame_right vadd_def addScaledVector_def)

lemma buildLoop_loopTrack:
  "buildLoop lineCurve loopTrack loopAtStart False =
     \<lparr> sections =
         [\<lparr> sectionType = Roll, startProgress = 0, endProgress = 0, arcLength = loopArc,
            rollFrame = Some (exampleFrame (Vector3 0 0 0)), splineStartT = None,
            splineEndT = None, pointIndex = Some 0 \<rparr>,
          \<lparr> sectionType = Spline, startProgress = 0, endProgress = 0, arcLength = 10,
            rollFrame = None, splineStartT = Some 0, splineEndT = Some 1, pointIndex = Some 0 \<rparr>],
       accumulatedLength = loopArc + 10, rollOffset = Vector3 12 0 0,
       prevTangent = Vector3 1 0 0, prevUp = Vector3 0 1 0 \<rparr>"
proof -
  have len: "length loopTrack = 2" and idx: "[0..<length loopTrack] = [0, 1]"
    by (simp_all add: loopTrack_def)
  have m0: "loopMapOf loopAtStart (pointId (loopTrack ! 0)) =
      Some \<lparr> segId = ''loop-1'', entryPointId = ''point-1'', segRadius = 5, segPitch = 12 \<rparr>"
    and m1: "loopMapOf loopAtStart (pointId (loopTrack ! Suc 0)) = None"
    by (simp_all add: loopMapOf_def loopAtStart_def loopTrack_def)
  have s0: "buildStep lineCurve loopTrack (loopMapOf loopAtStart) False 0 (initialBuildState lineCurve) =
     \<lparr> sections =
         [\<lparr> sectionType = Roll, startProgress = 0, endProgress = 0, arcLength = loopArc,
            rollFrame = Some (exampleFrame (Vector3 0 0 0)), splineStartT = None,
            splineEndT = None, pointIndex = Some 0 \<rparr>,
          \<lparr> sectionType = Spline, startProgress = 0, endProgress = 0, arcLength = 10,
            rollFrame = None, splineStartT = Some 0, splineEndT = Some 1, pointIndex = Some 0 \<rparr>],
       accumulatedLength = loopArc + 10, rollOffset = Vector3 12 0 0,
       prevTangent = Vector3 1 0 0, prevUp = Vector3 0 1 0 \<rparr>"
    by (simp add: buildStep_def Let_def len m0 initialBuildState_line rollStep_line splineStep_line)
  have s1: "buildStep lineCurve loopTrack (loopMapOf loopAtStart) False (Suc 0) st = st" for st
    by (simp add: buildStep_def Let_def len m1)
  show ?thesis
    by (simp add: buildLoop_def idx s0 s1)
qed

lemma loopTable_eq:
  "loopTable =
     [\<lparr> sectionType = Roll, startProgress = 0, endProgress = loopShare,
        arcLength = loopArc, rollFrame = Some (exampleFrame (Vector3 0 0 0)),
        splineStartT = None, splineEndT = None, pointIndex = Some 0 \<rparr>,
      \<lparr> sectionType = Spline, startProgress = loopShare, endProgress = 1,
        arcLength = 10, rollFrame = None, splineStartT = Some 0, splineEndT = Some 1,
        pointIndex = Some 0 \<rparr>]"
proof -
  have len: "length loopTrack = 2"
    by (simp add: loopTrack_def)
  have nz: "loopArc + 10 \<noteq> 0"
    using loopArc_pos by simp
  show ?thesis
    by (simp add: loopTable_def buildSections_def getTrackCurve_def len straightSpline_def
        buildLoop_loopTrack nz loopShare_def)
qed



section \<open>The frame of a loop sample\<close>

text \<open>
  For an orthonormal entry basis and a positive pitch, the tangent and the up of a loop
  sample are unit vectors, and their dot product is \<open>radius * dThetaDt t\<close> over the
  length of the unnormalised tangent: positive inside the loop, zero only where the
  angular velocity is. The up of a spline sample is a unit vector perpendicular to the
  tangent.
\<close>

lemma lengthSq_vdot: "lengthSq a = vdot a a"
  by (simp add: lengthSq_def vdot_def)

lemma vdot_commute: "vdot a b = vdot b a"
  by (simp add: vdot_def mult.commute)

lemma vdot_unit: "vlength a = 1 \<Longrightarrow> vdot a a = 1"
proof -
  assume "vlength a = 1"
  then have "sqrt (lengthSq a) = sqrt 1"
    by (simp add: vlength_def)
  then have "lengthSq a = 1"
    by (simp only: real_sqrt_eq_iff)
  then show ?thesis
    by (simp add: lengthSq_vdot)
qed

lemma vdot_addScaledVector_left:
  "vdot (addScaledVector a v s) b = vdot a b + s * vdot v b"
  by (simp add: vdot_def addScaledVector_def algebra_simps)

lemma vdot_addScaledVector_right:
  "vdot b (addScaledVector a v s) = vdot b a + s * vdot b v"
  by (simp add: vdot_def addScaledVector_def algebra_simps)

lemma vdot_multiplyScalar_left: "vdot (multiplyScalar a s) b = s * vdot a b"
  by (simp add: vdot_def multiplyScalar_def algebra_simps)

lemma vdot_multiplyScalar_right: "vdot b (multiplyScalar a s) = s * vdot b a"
  by (simp add: vdot_def multiplyScalar_def algebra_simps)

lemma vdot_zeroVector [simp]: "vdot zeroVector b = 0" "vdot b zeroVector = 0"
  by (simp_all add: vdot_def zeroVector_def)

lemmas vdot_linear = vdot_addScaledVector_left vdot_addScaledVector_right
  vdot_multiplyScalar_left vdot_multiplyScalar_right

lemma orthonormal_dots:
  assumes "orthonormal frame"
  shows "vdot (forward frame) (forward frame) = 1" "vdot (up frame) (up frame) = 1"
    "vdot (right frame) (right frame) = 1"
    "vdot (forward frame) (up frame) = 0" "vdot (up frame) (forward frame) = 0"
    "vdot (forward frame) (right frame) = 0" "vdot (right frame) (forward frame) = 0"
    "vdot (up frame) (right frame) = 0" "vdot (right frame) (up frame) = 0"
proof -
  show "vdot (forward frame) (forward frame) = 1" "vdot (up frame) (up frame) = 1"
    "vdot (right frame) (right frame) = 1"
    using assms by (simp_all add: orthonormal_def vdot_unit)
  show fu: "vdot (forward frame) (up frame) = 0" and fr: "vdot (forward frame) (right frame) = 0"
    and ur: "vdot (up frame) (right frame) = 0"
    using assms by (simp_all add: orthonormal_def)
  show "vdot (up frame) (forward frame) = 0"
    using fu by (subst vdot_commute)
  show "vdot (right frame) (forward frame) = 0"
    using fr by (subst vdot_commute)
  show "vdot (right frame) (up frame) = 0"
    using ur by (subst vdot_commute)
qed

lemma rawTangent_lengthSq:
  "orthonormal frame \<Longrightarrow> lengthSq (rawTangent frame a b) = pitch frame * pitch frame + a * a + b * b"
  by (simp add: lengthSq_vdot rawTangent_def vdot_linear orthonormal_dots algebra_simps)

lemma rawUp_lengthSq: "orthonormal frame \<Longrightarrow> lengthSq (rawUp frame c s) = c * c + s * s"
  by (simp add: lengthSq_vdot rawUp_def vdot_linear orthonormal_dots algebra_simps)

lemma raw_dot: "orthonormal frame \<Longrightarrow> vdot (rawTangent frame a b) (rawUp frame c s) = b * c + a * s"
  by (simp add: rawTangent_def rawUp_def vdot_linear orthonormal_dots algebra_simps)

lemma sin_cos_squares: "cos x * cos x + sin x * sin x = (1::real)"
  using sin_cos_squared_add2 [of x] by (simp add: power2_eq_square)

lemma rotatedUp_raw:
  assumes "orthonormal frame"
  shows "rotatedUp frame t = rawUp frame (cos (theta t)) (- sin (theta t))"
proof -
  have "lengthSq (rawUp frame (cos (theta t)) (- sin (theta t))) = 1"
    using assms by (simp add: rawUp_lengthSq sin_cos_squares)
  then have "vlength (rawUp frame (cos (theta t)) (- sin (theta t))) = 1"
    by (simp add: vlength_def)
  then show ?thesis
    by (simp add: rotatedUp_def rawUp_def normalize_unit)
qed

lemma rollTangent_raw:
  "rollTangent frame t =
     normalize (rawTangent frame (- (radius frame * sin (theta t) * dThetaDt t))
                  (radius frame * cos (theta t) * dThetaDt t))"
  by (simp add: rollTangent_def rawTangent_def)

lemma turn_squares:
  "(- (R * s * d)) * (- (R * s * d)) + (R * c * d) * (R * c * d)
     = (R * d) * (R * d) * (c * c + s * s)" for R :: real
  by algebra

lemma rawTangent_length:
  assumes "orthonormal frame"
  shows "vlength (rawTangent frame (- (radius frame * sin (theta t) * dThetaDt t))
                  (radius frame * cos (theta t) * dThetaDt t)) =
         sqrt (pitch frame * pitch frame
               + (radius frame * dThetaDt t) * (radius frame * dThetaDt t))"
proof -
  have "lengthSq (rawTangent frame (- (radius frame * sin (theta t) * dThetaDt t))
                  (radius frame * cos (theta t) * dThetaDt t)) =
        pitch frame * pitch frame
        + ((- (radius frame * sin (theta t) * dThetaDt t)) * (- (radius frame * sin (theta t) * dThetaDt t))
           + (radius frame * cos (theta t) * dThetaDt t) * (radius frame * cos (theta t) * dThetaDt t))"
    by (simp only: rawTangent_lengthSq [OF assms] add.assoc)
  also have "\<dots> = pitch frame * pitch frame
               + (radius frame * dThetaDt t) * (radius frame * dThetaDt t)"
    by (simp only: turn_squares sin_cos_squares mult_1_right)
  finally show ?thesis
    by (simp only: vlength_def)
qed

lemma vdot_normalize_left: "vdot (normalize a) b = vdot a b / (if vlength a = 0 then 1 else vlength a)"
  by (simp add: normalize_def vdot_multiplyScalar_left)

lemma turn_dot: "R * c * d * c + (- (R * s * d)) * (- s) = R * d * (c * c + s * s)" for R :: real
  by algebra

lemma radicand_pos:
  "0 < p \<Longrightarrow> 0 < p * p + (R * d) * (R * d)" for p :: real
  by (intro add_pos_nonneg mult_pos_pos) simp_all

lemma root_nonzero:
  assumes "0 < p"
  shows "sqrt (p * p + (R * d) * (R * d)) \<noteq> 0"
proof -
  have "0 < sqrt (p * p + (R * d) * (R * d))"
    by (rule real_sqrt_gt_zero [OF radicand_pos [OF assms]])
  then show ?thesis
    by linarith
qed

lemma roll_up_against_tangent:
  assumes "orthonormal frame" and "0 < pitch frame"
  shows "vdot (rollTangent frame t) (rotatedUp frame t) =
           radius frame * dThetaDt t
             / sqrt (pitch frame * pitch frame
                     + (radius frame * dThetaDt t) * (radius frame * dThetaDt t))"
proof -
  define raw where "raw = rawTangent frame (- (radius frame * sin (theta t) * dThetaDt t))
                  (radius frame * cos (theta t) * dThetaDt t)"
  define root where "root = sqrt (pitch frame * pitch frame
                     + (radius frame * dThetaDt t) * (radius frame * dThetaDt t))"
  have nz: "root \<noteq> 0"
    unfolding root_def by (rule root_nonzero [OF assms(2)])
  have len: "vlength raw = root"
    unfolding raw_def root_def by (rule rawTangent_length [OF assms(1)])
  have "vdot raw (rawUp frame (cos (theta t)) (- sin (theta t)))
             = radius frame * cos (theta t) * dThetaDt t * cos (theta t)
               + (- (radius frame * sin (theta t) * dThetaDt t)) * (- sin (theta t))"
    unfolding raw_def by (rule raw_dot [OF assms(1)])
  then have dot: "vdot raw (rawUp frame (cos (theta t)) (- sin (theta t))) = radius frame * dThetaDt t"
    by (simp only: turn_dot sin_cos_squares mult_1_right)
  have "vdot (rollTangent frame t) (rotatedUp frame t) =
          vdot (normalize raw) (rawUp frame (cos (theta t)) (- sin (theta t)))"
    by (simp only: rollTangent_raw rotatedUp_raw [OF assms(1)] raw_def)
  also have "\<dots> = radius frame * dThetaDt t / root"
    using nz by (simp add: vdot_normalize_left dot len)
  finally show ?thesis
    by (simp only: root_def)
qed

lemma roll_sample_unit:
  assumes "orthonormal frame" and "0 < pitch frame"
  shows "vlength (rollTangent frame t) = 1" and "vlength (rotatedUp frame t) = 1"
proof -
  define raw where "raw = rawTangent frame (- (radius frame * sin (theta t) * dThetaDt t))
                  (radius frame * cos (theta t) * dThetaDt t)"
  define root where "root = sqrt (pitch frame * pitch frame
                     + (radius frame * dThetaDt t) * (radius frame * dThetaDt t))"
  have nz: "root \<noteq> 0"
    unfolding root_def by (rule root_nonzero [OF assms(2)])
  have len: "vlength raw = root"
    unfolding raw_def root_def by (rule rawTangent_length [OF assms(1)])
  from nz len have "vlength raw \<noteq> 0"
    by simp
  then have "vlength (normalize raw) = 1"
    by (rule vlength_normalize)
  then show "vlength (rollTangent frame t) = 1"
    by (simp only: rollTangent_raw raw_def)
  have "lengthSq (rawUp frame (cos (theta t)) (- sin (theta t))) = 1"
    using assms(1) by (simp add: rawUp_lengthSq sin_cos_squares)
  then show "vlength (rotatedUp frame t) = 1"
    by (simp add: rotatedUp_raw [OF assms(1)] vlength_def)
qed

lemma dThetaDt_interior:
  assumes "0 < t" and "t < 1"
  shows "0 < dThetaDt t"
proof -
  have "cos (twoPi * t) \<noteq> 1"
  proof
    assume "cos (twoPi * t) = 1"
    then obtain n :: int where n: "twoPi * t = of_int n * 2 * pi"
      by (auto simp: cos_one_2pi_int)
    then have "t = of_int n"
      by (simp add: twoPi_def)
    with assms have "0 < n" and "n < 1"
      by simp_all
    then show False
      by linarith
  qed
  moreover have "cos (twoPi * t) \<le> 1"
    by simp
  ultimately have "cos (twoPi * t) < 1"
    by linarith
  then show ?thesis
    by (simp add: dThetaDt_def twoPi_def)
qed

lemma roll_up_leans_forward:
  assumes "orthonormal frame" and "0 < pitch frame" and "0 < radius frame"
    and "0 < t" and "t < 1"
  shows "0 < vdot (rollTangent frame t) (rotatedUp frame t)"
proof -
  have "0 < radius frame * dThetaDt t"
    using assms(3) dThetaDt_interior [OF assms(4,5)] by simp
  moreover have "0 < sqrt (pitch frame * pitch frame
                     + (radius frame * dThetaDt t) * (radius frame * dThetaDt t))"
    by (rule real_sqrt_gt_zero [OF radicand_pos [OF assms(2)]])
  ultimately show ?thesis
    by (simp only: roll_up_against_tangent [OF assms(1,2)] divide_pos_pos)
qed

lemma splineUp_unit_perpendicular:
  assumes "vlength tan0 = 1"
  shows "vlength (splineUp tan0) = 1" and "vdot (splineUp tan0) tan0 = 0"
proof -
  obtain x y z where t: "tan0 = Vector3 x y z"
    by (cases tan0)
  have unit: "x * x + y * y + z * z = 1"
    using vdot_unit [OF assms] by (simp add: t vdot_def)
  define u1 where "u1 = vsub (Vector3 0 1 0) (multiplyScalar tan0 (vdot (Vector3 0 1 0) tan0))"
  define u2 where "u2 = vsub (Vector3 1 0 0) (multiplyScalar tan0 (vdot (Vector3 1 0 0) tan0))"
  have l1: "lengthSq u1 = 1 - y * y"
  proof -
    have "lengthSq u1 = 1 - 2 * (y * y) + (y * y) * (x * x + y * y + z * z)"
      by (simp add: u1_def t lengthSq_def vsub_def multiplyScalar_def vdot_def algebra_simps)
    then show ?thesis by (simp add: unit)
  qed
  have l2: "lengthSq u2 = 1 - x * x"
  proof -
    have "lengthSq u2 = 1 - 2 * (x * x) + (x * x) * (x * x + y * y + z * z)"
      by (simp add: u2_def t lengthSq_def vsub_def multiplyScalar_def vdot_def algebra_simps)
    then show ?thesis by (simp add: unit)
  qed
  have d1: "vdot u1 tan0 = 0"
  proof -
    have "vdot u1 tan0 = y - y * (x * x + y * y + z * z)"
      by (simp add: u1_def t vsub_def multiplyScalar_def vdot_def algebra_simps)
    then show ?thesis by (simp add: unit)
  qed
  have d2: "vdot u2 tan0 = 0"
  proof -
    have "vdot u2 tan0 = x - x * (x * x + y * y + z * z)"
      by (simp add: u2_def t vsub_def multiplyScalar_def vdot_def algebra_simps)
    then show ?thesis by (simp add: unit)
  qed
  have up: "splineUp tan0 = (if lengthSq u1 > 0.001 then normalize u1 else normalize u2)"
    by (simp add: splineUp_def Let_def u1_def u2_def)
  have nz: "vlength (if lengthSq u1 > 0.001 then u1 else u2) \<noteq> 0"
  proof (cases "lengthSq u1 > 0.001")
    case True
    have small: "(0::real) < 0.001"
      by simp
    from small True have "0 < lengthSq u1"
      by (rule less_trans)
    then have "0 < sqrt (lengthSq u1)"
      by (rule real_sqrt_gt_zero)
    with True show ?thesis by (simp add: vlength_def)
  next
    case False
    then have "y * y \<ge> 999 / 1000"
      by (simp add: l1)
    moreover have "0 \<le> z * z"
      by simp
    ultimately have "x * x \<le> 1 / 1000"
      using unit by linarith
    then have "0 < lengthSq u2"
      by (simp add: l2)
    then have "0 < sqrt (lengthSq u2)"
      by (rule real_sqrt_gt_zero)
    with False show ?thesis by (simp add: vlength_def)
  qed
  show "vlength (splineUp tan0) = 1"
    using nz vlength_normalize [of "if lengthSq u1 > 0.001 then u1 else u2"]
    by (simp add: up split: if_splits)
  show "vdot (splineUp tan0) tan0 = 0"
    by (simp add: up vdot_normalize_left d1 d2)
qed

section \<open>Sampling inside a loop\<close>

lemma midLoopProgress_eq: "midLoopProgress = loopShare / 2"
  by (simp add: midLoopProgress_def loopTable_eq)

lemma midLoopProgress_bounds: "0 < midLoopProgress" "midLoopProgress < loopShare"
  "midLoopProgress < 1 / 2"
  using loopShare_bounds by (simp_all add: midLoopProgress_eq)

lemma clampProgress_mid: "clampProgress midLoopProgress = midLoopProgress"
  using midLoopProgress_bounds by (simp add: clampProgress_def)

lemma selectSection_mid: "selectSection midLoopProgress loopTable = loopTable ! 0"
  using midLoopProgress_bounds by (simp add: selectSection_def loopTable_eq)

lemma sampleSection_roll:
  "sectionType s = Roll \<Longrightarrow> rollFrame s = Some frame \<Longrightarrow>
     sampleSection s p spline segs tps looped =
       Some (sampleBarrelRollAnalytically frame
               ((p - startProgress s) / (endProgress s - startProgress s)))"
  by (simp add: sampleSection_def)

lemma sample_mid:
  "sampleHybridTrack midLoopProgress loopTable lineCurve loopAtStart loopTrack False =
     Some (sampleBarrelRollAnalytically (exampleFrame (Vector3 0 0 0)) (1 / 2))"
proof -
  have first: "sectionType (loopTable ! 0) = Roll"
    "rollFrame (loopTable ! 0) = Some (exampleFrame (Vector3 0 0 0))"
    "startProgress (loopTable ! 0) = 0" "endProgress (loopTable ! 0) = loopShare"
    by (simp_all add: loopTable_eq)
  have half: "(midLoopProgress - 0) / (loopShare - 0) = 1 / 2"
    using loopShare_bounds by (simp add: midLoopProgress_eq)
  have "sampleSection (loopTable ! 0) midLoopProgress lineCurve loopAtStart loopTrack False =
     Some (sampleBarrelRollAnalytically (exampleFrame (Vector3 0 0 0)) (1 / 2))"
    by (simp only: sampleSection_roll [OF first(1,2)] first(3,4) half)
  moreover have "length loopTable \<noteq> 0"
    by (simp add: loopTable_eq)
  ultimately show ?thesis
    by (simp add: sampleHybridTrack_def clampProgress_mid selectSection_mid Let_def)
qed

lemma mid_tangent:
  "rollTangent (exampleFrame e) (1 / 2) = normalize (Vector3 12 (- (20 * pi)) 0)"
  by (simp add: rollTangent_def exampleFrame_def exampleFrame_right theta_half dThetaDt_half
      addScaledVector_def multiplyScalar_def)

lemma mid_up: "rotatedUp (exampleFrame e) (1 / 2) = Vector3 0 (- 1) 0"
  by (simp add: rotatedUp_def exampleFrame_def exampleFrame_right theta_half
      addScaledVector_def zeroVector_def normalize_def vlength_def lengthSq_def multiplyScalar_def)

lemma mid_length: "vlength (Vector3 12 (- (20 * pi)) 0) = sqrt (144 + 400 * pi * pi)"
  by (simp add: vlength_def lengthSq_def)

lemma mid_dot:
  "vdot (normalize (Vector3 12 (- (20 * pi)) 0)) (Vector3 0 (- 1) 0)
     = 20 * pi / sqrt (144 + 400 * pi * pi)"
proof -
  have "0 < 144 + 400 * pi * pi"
    by (simp add: add_pos_nonneg)
  then have "sqrt (144 + 400 * pi * pi) \<noteq> 0"
    by simp
  then show ?thesis
    by (simp add: normalize_def mid_length vdot_def multiplyScalar_def)
qed

lemma mid_dot_large: "9 / 10 < 20 * pi / sqrt (144 + 400 * pi * pi)"
proof -
  define p2 where "p2 = pi * pi"
  have "2 * 2 \<le> pi * pi"
    by (intro mult_mono pi_ge_two) simp_all
  then have p2: "4 \<le> p2"
    by (simp add: p2_def)
  have "144 + 400 * p2 < (200 / 9) * (200 / 9) * p2"
    using p2 by simp
  then have "144 + 400 * pi * pi < (200 / 9 * pi)\<^sup>2"
    by (simp add: p2_def power2_eq_square algebra_simps)
  then have "sqrt (144 + 400 * pi * pi) < 200 / 9 * pi"
    by (intro real_less_lsqrt) simp_all
  moreover have "0 < sqrt (144 + 400 * pi * pi)"
    by (simp add: add_pos_nonneg)
  ultimately show ?thesis
    by (simp add: pos_less_divide_eq)
qed

text \<open>
  Claim C3 at a failing input. On the two-point track with a loop of radius 5 and pitch 12
  at its first point, the sample of the path sampler in the middle of the loop has a unit
  tangent and a unit up, but the up is far from perpendicular to the tangent: their dot
  product exceeds 9/10. The loop evaluator turns the entry up about the forward axis and
  never projects it off the tangent (\<open>roll_up_leans_forward\<close>), which the spline branch
  of the sampler does (\<open>splineUp_unit_perpendicular\<close>).
\<close>

theorem loop_sample_up_not_perpendicular:
  "sampleHybridTrack midLoopProgress loopTable lineCurve loopAtStart loopTrack False =
     Some \<lparr> point = Vector3 6 0 (- 10), tangent = normalize (Vector3 12 (- (20 * pi)) 0),
            sampleUp = Vector3 0 (- 1) 0, inRoll = True \<rparr>
   \<and> 9 / 10 < vdot (normalize (Vector3 12 (- (20 * pi)) 0)) (Vector3 0 (- 1) 0)"
proof -
  have "rollPoint (exampleFrame (Vector3 0 0 0)) (1 / 2) = Vector3 6 0 (- 10)"
    by (simp add: rollPoint_def exampleFrame_def exampleFrame_right theta_half addScaledVector_def)
  then show ?thesis
    using mid_dot_large
    by (simp add: sample_mid sampleBarrelRollAnalytically_def mid_tangent mid_up mid_dot)
qed

section \<open>The path sampler\<close>

lemma scanSections_find: "scanSections p secs = List.find (inRange p) secs"
  by (induction secs) (simp_all add: inRange_def)

lemma selectSection_owning: "secs \<noteq> [] \<Longrightarrow> selectSection p secs = owningSection p secs"
  by (simp add: selectSection_def owningSection_def scanSections_find last_conv_nth
      split: option.split)

lemma owningSection_mem: "secs \<noteq> [] \<Longrightarrow> owningSection p secs \<in> set secs"
  by (auto simp: owningSection_def find_Some_iff split: option.split)

lemma sampleSection_wellFormed:
  "wellFormed s \<Longrightarrow> sampleSection s p spline segs tps looped \<noteq> None"
  by (cases "sectionType s")
     (auto simp: wellFormed_def sampleSection_def Let_def split: option.split)

lemma sampleHybridTrack_answers:
  assumes "secs \<noteq> []" and "\<forall>s \<in> set secs. wellFormed s"
  shows "sampleHybridTrack p secs spline segs tps looped \<noteq> None"
proof -
  have "owningSection (clampProgress p) secs \<in> set secs"
    by (rule owningSection_mem [OF assms(1)])
  with assms(2) have "wellFormed (owningSection (clampProgress p) secs)"
    by blast
  then show ?thesis
    using assms(1) by (simp add: sampleHybridTrack_def Let_def selectSection_owning
        sampleSection_wellFormed)
qed

lemma assignProgress_wellFormed:
  "(\<forall>s \<in> set secs. wellFormed s) \<Longrightarrow> (\<forall>s \<in> set (assignProgress T r secs). wellFormed s)"
  by (induction secs arbitrary: r) (simp_all add: wellFormed_def)

lemma buildStep_wellFormed:
  "(\<forall>s \<in> set (sections st). wellFormed s) \<Longrightarrow>
     (\<forall>s \<in> set (sections (buildStep c tps m lp i st)). wellFormed s)"
  by (auto simp: buildStep_def Let_def rollStep_def splineStep_def wellFormed_def
      split: option.split)

lemma fold_buildStep_wellFormed:
  "(\<forall>s \<in> set (sections st). wellFormed s) \<Longrightarrow>
     (\<forall>s \<in> set (sections (fold (buildStep c tps m lp) is st)). wellFormed s)"
proof (induction "is" arbitrary: st)
  case Nil
  then show ?case by simp
next
  case (Cons i "is")
  show ?case
    using Cons.IH [OF buildStep_wellFormed [OF Cons.prems]] by simp
qed

lemma buildSections_wellFormed:
  "\<forall>s \<in> set (fst (buildSections catmullRom tps segs looped)). wellFormed s"
proof -
  have "\<forall>s \<in> set (sections (buildLoop c tps segs looped)). wellFormed s" for c
    unfolding buildLoop_def
    by (rule fold_buildStep_wellFormed) (simp add: initialBuildState_def Let_def)
  from assignProgress_wellFormed [OF this] show ?thesis
    by (simp add: buildSections_def getTrackCurve_def Let_def)
qed









section \<open>The traversal tick at the end of the path\<close>

lemma placeCamera_maxHeight [simp]:
  "maxHeightReached (fst (placeCamera memo curve state p sample (refs, cam))) = maxHeightReached refs"
  by (simp add: placeCamera_def Let_def)

lemma remainderOne_range: "1 \<le> x \<Longrightarrow> remainderOne x = x - of_int \<lfloor>x\<rfloor>"
  "1 \<le> x \<Longrightarrow> 0 \<le> remainderOne x" "1 \<le> x \<Longrightarrow> remainderOne x < 1"
proof -
  assume "1 \<le> x"
  then have eq: "remainderOne x = x - of_int \<lfloor>x\<rfloor>"
    by (simp add: remainderOne_def)
  show "remainderOne x = x - of_int \<lfloor>x\<rfloor>" by (rule eq)
  show "0 \<le> remainderOne x" unfolding eq by linarith
  show "remainderOne x < 1" unfolding eq by linarith
qed

lemma rideTick_open_end:
  assumes "curveRef refs = Some curve" and "isRiding state" and "memoSections memo \<noteq> []"
    and "sampleHybridTrack (rideProgress state) (memoSections memo) curve
           (loopSegments state) (trackPoints state) (isLooped state) \<noteq> None"
    and "1 \<le> advancedProgress memo delta state" and "\<not> isLooped state"
  shows "fst (rideTick memo delta (state, refs, cam)) = stopRide state"
  using assms by (auto simp: rideTick_def Let_def split: option.split)

lemma rideTick_closed_end:
  assumes "curveRef refs = Some curve" and "isRiding state" and "memoSections memo \<noteq> []"
    and "sampleHybridTrack (rideProgress state) (memoSections memo) curve
           (loopSegments state) (trackPoints state) (isLooped state) \<noteq> None"
    and "1 \<le> advancedProgress memo delta state" and "isLooped state"
  shows "fst (rideTick memo delta (state, refs, cam)) =
           setRideProgress (remainderOne (advancedProgress memo delta state)) state"
    and "hasChainLift state \<Longrightarrow>
           maxHeightReached (fst (snd (rideTick memo delta (state, refs, cam)))) =
             vy (getPoint curve 0)"
  using assms by (auto simp: rideTick_def Let_def split: option.split)

text \<open>
  Claim C5, as amended. When a tick advances progress to 1 or beyond: on a closed path
  the new progress is the fractional part of the advanced progress, the ride goes on, and
  with the chain lift enabled the climb-height tracker is reset to the height of the
  path's start; on an open path the tick calls \<open>stopRide\<close>, which ends the ride, returns
  to build mode and resets the progress to 0.
\<close>

theorem tick_at_end_of_path:
  assumes "curveRef refs = Some curve" and "isRiding state" and "memoSections memo \<noteq> []"
    and "sampleHybridTrack (rideProgress state) (memoSections memo) curve
           (loopSegments state) (trackPoints state) (isLooped state) \<noteq> None"
    and "0 < totalArcLength memo"
    and "1 \<le> advancedProgress memo delta state"
  shows "(isLooped state \<longrightarrow>
            rideProgress (fst (rideTick memo delta (state, refs, cam))) =
              advancedProgress memo delta state - of_int \<lfloor>advancedProgress memo delta state\<rfloor>
          \<and> 0 \<le> rideProgress (fst (rideTick memo delta (state, refs, cam)))
          \<and> rideProgress (fst (rideTick memo delta (state, refs, cam))) < 1
          \<and> isRiding (fst (rideTick memo delta (state, refs, cam)))
          \<and> (hasChainLift state \<longrightarrow>
                maxHeightReached (fst (snd (rideTick memo delta (state, refs, cam)))) =
                  vy (getPoint curve 0)))
       \<and> (\<not> isLooped state \<longrightarrow>
            fst (rideTick memo delta (state, refs, cam)) = stopRide state
          \<and> \<not> isRiding (fst (rideTick memo delta (state, refs, cam)))
          \<and> mode (fst (rideTick memo delta (state, refs, cam))) = Build
          \<and> rideProgress (fst (rideTick memo delta (state, refs, cam))) = 0)"
proof (cases "isLooped state")
  case True
  note closed = rideTick_closed_end [OF assms(1-4) assms(6) True, of cam]
  show ?thesis
    using True assms(2) remainderOne_range [OF assms(6)]
    by (simp add: closed setRideProgress_def)
next
  case False
  show ?thesis
    using False by (simp add: rideTick_open_end [OF assms(1-4) assms(6) False] stopRide_def)
qed

lemma straightMemo_eq:
  "straightMemo =
     \<lparr> memoSections =
         [\<lparr> sectionType = Spline, startProgress = 0, endProgress = 1, arcLength = 10,
            rollFrame = None, splineStartT = Some 0, splineEndT = Some 1, pointIndex = Some 0 \<rparr>],
       totalArcLength = 10, firstPeakProgress = 0.2 \<rparr>"
  by (simp only: straightMemo_def buildSections_straight fst_conv snd_conv)

lemma straightMemo_sample:
  "sampleHybridTrack p (memoSections straightMemo) curve segs tps looped \<noteq> None"
  by (rule sampleHybridTrack_answers) (simp_all add: straightMemo_eq wellFormed_def del: not_None_eq)

lemma circuitMemo_sample:
  "sampleHybridTrack p (memoSections circuitMemo) curve segs tps looped \<noteq> None"
  by (rule sampleHybridTrack_answers) (simp_all add: circuitMemo_def wellFormed_def del: not_None_eq)

lemma openRide_fields:
  "isRiding openRide" "\<not> isLooped openRide" "rideProgress openRide = 99 / 100"
  "hasChainLift openRide" "rideSpeed openRide = 1"
  by (simp_all add: openRide_def initialState_def)

lemma circuitRide_fields:
  "isRiding circuitRide" "isLooped circuitRide" "rideProgress circuitRide = 99 / 100"
  "hasChainLift circuitRide" "rideSpeed circuitRide = 1"
  by (simp_all add: circuitRide_def openRide_fields)

lemma straightMemo_fields:
  "memoSections straightMemo \<noteq> []" "totalArcLength straightMemo = 10"
  "firstPeakProgress straightMemo = 1 / 5"
  by (simp_all add: straightMemo_eq)

lemma circuitMemo_fields:
  "memoSections circuitMemo \<noteq> []" "totalArcLength circuitMemo = 20"
  "firstPeakProgress circuitMemo = 1 / 5"
  by (simp_all add: circuitMemo_def)

lemma openRide_advanced: "advancedProgress straightMemo (1 / 60) openRide = 101 / 100"
  by (simp add: advancedProgress_def tickSpeed_def lifting_def openRide_fields straightMemo_fields)

lemma circuitRide_advanced: "advancedProgress circuitMemo (1 / 10) circuitRide = 21 / 20"
  by (simp add: advancedProgress_def tickSpeed_def lifting_def circuitRide_fields
      circuitMemo_fields)

lemma openRefs_curve: "curveRef openRefs = Some lineCurve"
  by (simp add: openRefs_def)

lemma circuitRefs_curve: "curveRef circuitRefs = Some circuitCurve"
  by (simp add: circuitRefs_def)

text \<open>
  Claim C5 as stated fails on an open path: a ride at progress 0.99 whose tick advances it
  to 1.01 is left at progress 0, not at its last sample.
\<close>

theorem open_path_end_resets_progress:
  "rideProgress openRide = 99 / 100
   \<and> advancedProgress straightMemo (1 / 60) openRide = 101 / 100
   \<and> rideProgress (fst (rideTick straightMemo (1 / 60) (openRide, openRefs, restingCamera))) = 0"
proof -
  have "1 \<le> advancedProgress straightMemo (1 / 60) openRide"
    by (simp add: openRide_advanced)
  then have "fst (rideTick straightMemo (1 / 60) (openRide, openRefs, restingCamera)) = stopRide openRide"
    by (rule rideTick_open_end [OF openRefs_curve openRide_fields(1) straightMemo_fields(1)
          straightMemo_sample _ openRide_fields(2)])
  then show ?thesis
    by (simp add: openRide_advanced openRide_fields stopRide_def)
qed

theorem tick_at_end_of_path_witness:
  "rideProgress (fst (rideTick straightMemo (1 / 60) (openRide, openRefs, restingCamera))) = 0
   \<and> \<not> isRiding (fst (rideTick straightMemo (1 / 60) (openRide, openRefs, restingCamera)))
   \<and> rideProgress (fst (rideTick circuitMemo (1 / 10) (circuitRide, circuitRefs, restingCamera))) = 1 / 20
   \<and> maxHeightReached (fst (snd (rideTick circuitMemo (1 / 10) (circuitRide, circuitRefs, restingCamera)))) = 0"
proof -
  have o5: "0 < totalArcLength straightMemo" and c5: "0 < totalArcLength circuitMemo"
    by (simp_all add: straightMemo_fields circuitMemo_fields)
  have o6: "1 \<le> advancedProgress straightMemo (1 / 60) openRide"
    and c6: "1 \<le> advancedProgress circuitMemo (1 / 10) circuitRide"
    by (simp_all add: openRide_advanced circuitRide_advanced)
  note opened = tick_at_end_of_path [OF openRefs_curve openRide_fields(1) straightMemo_fields(1)
      straightMemo_sample o5 o6, of restingCamera]
  note closed = tick_at_end_of_path [OF circuitRefs_curve circuitRide_fields(1)
      circuitMemo_fields(1) circuitMemo_sample c5 c6, of restingCamera]
  have fl: "\<lfloor>21 / 20 :: real\<rfloor> = 1"
    by linarith
  from opened openRide_fields(2)
  have a: "rideProgress (fst (rideTick straightMemo (1 / 60) (openRide, openRefs, restingCamera))) = 0
   \<and> \<not> isRiding (fst (rideTick straightMemo (1 / 60) (openRide, openRefs, restingCamera)))"
    by blast
  from closed circuitRide_fields(2,4)
  have b: "rideProgress (fst (rideTick circuitMemo (1 / 10) (circuitRide, circuitRefs, restingCamera))) = 1 / 20
   \<and> maxHeightReached (fst (snd (rideTick circuitMemo (1 / 10) (circuitRide, circuitRefs, restingCamera)))) = 0"
    by (simp add: circuitRide_advanced fl circuitCurve_def circuitPoint_def)
  from a b show ?thesis by simp
qed

section \<open>Removing a track point\<close>

lemma removeTrackPoint_loopSegments: "loopSegments (removeTrackPoint ident state) = loopSegments state"
  by (simp add: removeTrackPoint_def)

lemma removeTrackPoint_ids: "ident \<notin> pointId ` set (trackPoints (removeTrackPoint ident state))"
  by (auto simp: removeTrackPoint_def)

lemma clearTrack_both: "trackPoints (clearTrack state) = [] \<and> loopSegments (clearTrack state) = []"
  by (simp add: clearTrack_def)

text \<open>
  Claim C6 at a failing input. On the two-point track, a loop is created at the first
  point and the point is then removed: the loop segment stays in the store and names the
  removed point, which is no longer among the track points. \<open>removeTrackPoint\<close> never
  touches the loop segments, while \<open>clearTrack\<close> empties both lists.
\<close>

theorem removed_point_keeps_its_loop:
  "loopSegments (removeTrackPoint ''point-1''
       (createLoopAtPoint ''point-1'' ''1700000000000'' twoPointState)) =
     [\<lparr> segId = ''loop-1700000000000'', entryPointId = ''point-1'', segRadius = 5, segPitch = 12 \<rparr>]
   \<and> map pointId (trackPoints (removeTrackPoint ''point-1''
       (createLoopAtPoint ''point-1'' ''1700000000000'' twoPointState))) = [''point-2'']"
  by (simp add: removeTrackPoint_def createLoopAtPoint_def twoPointState_def initialState_def
      straightTrack_def Let_def)

section \<open>Import\<close>

lemma trim_Nil [simp]: "trim [] = []"
  by (simp add: trim_def)

lemma getProp_validCoaster:
  "getProp (validCoaster coaster name pts clock) ''hasChainLift'' =
     Some (JBool (getProp coaster ''hasChainLift'' \<noteq> Some (JBool False)))"
  "getProp (validCoaster coaster name pts clock) ''isLooped'' =
     Some (JBool (truthy (getProp coaster ''isLooped'')))"
  "getProp (validCoaster coaster name pts clock) ''showWoodSupports'' =
     Some (JBool (truthy (getProp coaster ''showWoodSupports'')))"
  "getProp (validCoaster coaster name pts clock) ''loopSegments'' =
     Some (case getProp coaster ''loopSegments'' of
              None \<Rightarrow> JArray []
            | Some segs \<Rightarrow> if truthy (Some segs) then segs else JArray [])"
  "getProp (validCoaster coaster name pts clock) ''trackPoints'' = Some (JArray pts)"
  "getProp (validCoaster coaster name pts clock) ''name'' = Some (JString (trim name))"
  by (simp_all add: validCoaster_def)

lemma importCoaster_accepted:
  assumes "fst (importCoaster (Some coaster) clock ok env)"
  shows "\<exists>name pts older.
           getProp coaster ''name'' = Some (JString name) \<and>
           getProp coaster ''trackPoints'' = Some (JArray pts) \<and>
           loadSavedCoasters (fst env) = JArray older \<and>
           importCoaster (Some coaster) clock ok env =
             (True, Some (JArray (older @ [validCoaster coaster name pts clock])),
              (snd env)\<lparr> savedCoasters := JArray (older @ [validCoaster coaster name pts clock]) \<rparr>)"
  using assms
  by (auto simp: importCoaster_def Let_def split: option.splits json.splits if_splits)

lemma storedField_accepted:
  assumes "fst (importCoaster (Some coaster) clock ok env)"
  shows "\<exists>name pts. storedField key (importCoaster (Some coaster) clock ok env) =
           getProp (validCoaster coaster name pts clock) key"
proof -
  from importCoaster_accepted [OF assms] obtain name pts older where
    "importCoaster (Some coaster) clock ok env =
             (True, Some (JArray (older @ [validCoaster coaster name pts clock])),
              (snd env)\<lparr> savedCoasters := JArray (older @ [validCoaster coaster name pts clock]) \<rparr>)"
    by blast
  then have "storedField key (importCoaster (Some coaster) clock ok env) =
           getProp (validCoaster coaster name pts clock) key"
    by (simp add: storedField_def lastSaved_def)
  then show ?thesis by blast
qed

lemma stored_copy_accepted:
  assumes "fst (importCoaster (Some coaster) clock ok env)"
  shows "fst (snd (importCoaster (Some coaster) clock ok env)) =
           Some (savedCoasters (snd (snd (importCoaster (Some coaster) clock ok env))))"
  using importCoaster_accepted [OF assms] by auto

text \<open>
  Claim C9. After a successful import the stored coaster's \<^verbatim>\<open>hasChainLift\<close> is true
  unless the input's field is the boolean false (so it is true when the field is absent,
  null or not a boolean), and its \<^verbatim>\<open>isLooped\<close> and \<^verbatim>\<open>showWoodSupports\<close> are the
  truth values of the input's fields, false when they are absent.
\<close>

theorem import_flag_defaults:
  assumes "fst (importCoaster (Some coaster) clock ok env)"
  shows "storedField ''hasChainLift'' (importCoaster (Some coaster) clock ok env) =
           Some (JBool (getProp coaster ''hasChainLift'' \<noteq> Some (JBool False)))
     \<and> storedField ''isLooped'' (importCoaster (Some coaster) clock ok env) =
           Some (JBool (truthy (getProp coaster ''isLooped'')))
     \<and> storedField ''showWoodSupports'' (importCoaster (Some coaster) clock ok env) =
           Some (JBool (truthy (getProp coaster ''showWoodSupports'')))
     \<and> (getProp coaster ''isLooped'' = None \<longrightarrow>
           storedField ''isLooped'' (importCoaster (Some coaster) clock ok env) = Some (JBool False))
     \<and> (getProp coaster ''showWoodSupports'' = None \<longrightarrow>
           storedField ''showWoodSupports'' (importCoaster (Some coaster) clock ok env) =
             Some (JBool False))
     \<and> fst (snd (importCoaster (Some coaster) clock ok env)) =
           Some (savedCoasters (snd (snd (importCoaster (Some coaster) clock ok env))))"
proof -
  have chain: "storedField ''hasChainLift'' (importCoaster (Some coaster) clock ok env) =
           Some (JBool (getProp coaster ''hasChainLift'' \<noteq> Some (JBool False)))"
    using storedField_accepted [OF assms, of "''hasChainLift''"]
    by (auto simp: getProp_validCoaster)
  have looped: "storedField ''isLooped'' (importCoaster (Some coaster) clock ok env) =
           Some (JBool (truthy (getProp coaster ''isLooped'')))"
    using storedField_accepted [OF assms, of "''isLooped''"]
    by (auto simp: getProp_validCoaster)
  have wood: "storedField ''showWoodSupports'' (importCoaster (Some coaster) clock ok env) =
           Some (JBool (truthy (getProp coaster ''showWoodSupports'')))"
    using storedField_accepted [OF assms, of "''showWoodSupports''"]
    by (auto simp: getProp_validCoaster)
  show ?thesis
    using chain looped wood stored_copy_accepted [OF assms] by simp
qed

lemma pointOne_valid: "validTrackPoint pointOne"
  by (simp add: validTrackPoint_def pointOne_def)

lemma trim_examples: "trim ''Bare'' = ''Bare''" "trim ''Loose'' = ''Loose''"
  "trim '' Chainless '' = ''Chainless''"
  by (simp_all add: trim_def isWhiteSpace_def)

lemma bareCoaster_accepted: "fst (importCoaster (Some bareCoaster) clock True oneSave)"
  by (simp add: importCoaster_def bareCoaster_def pointOne_valid trim_examples oneSave_def
      loadSavedCoasters_def Let_def)

lemma chainlessCoaster_accepted: "fst (importCoaster (Some chainlessCoaster) clock True oneSave)"
  by (simp add: importCoaster_def chainlessCoaster_def pointOne_valid trim_examples oneSave_def
      loadSavedCoasters_def Let_def)

lemma looseCoaster_accepted: "fst (importCoaster (Some looseCoaster) clock True (None, state))"
  by (simp add: importCoaster_def looseCoaster_def pointOne_valid trim_examples
      loadSavedCoasters_def Let_def)

theorem import_flag_defaults_witness:
  "fst (importCoaster (Some bareCoaster) importClock True oneSave)
   \<and> getProp bareCoaster ''hasChainLift'' = None
   \<and> getProp bareCoaster ''isLooped'' = None
   \<and> getProp bareCoaster ''showWoodSupports'' = None
   \<and> storedField ''hasChainLift'' (importCoaster (Some bareCoaster) importClock True oneSave) =
        Some (JBool True)
   \<and> storedField ''isLooped'' (importCoaster (Some bareCoaster) importClock True oneSave) =
        Some (JBool False)
   \<and> storedField ''showWoodSupports'' (importCoaster (Some bareCoaster) importClock True oneSave) =
        Some (JBool False)
   \<and> fst (importCoaster (Some chainlessCoaster) importClock True oneSave)
   \<and> storedField ''hasChainLift'' (importCoaster (Some chainlessCoaster) importClock True oneSave) =
        Some (JBool False)
   \<and> storedField ''isLooped'' (importCoaster (Some chainlessCoaster) importClock True oneSave) =
        Some (JBool True)"
proof -
  have absent: "getProp bareCoaster ''hasChainLift'' = None" "getProp bareCoaster ''isLooped'' = None"
    "getProp bareCoaster ''showWoodSupports'' = None"
    by (simp_all add: bareCoaster_def)
  have given: "getProp chainlessCoaster ''hasChainLift'' = Some (JBool False)"
    "getProp chainlessCoaster ''isLooped'' = Some (JNumber 1)"
    by (simp_all add: chainlessCoaster_def)
  note bare = import_flag_defaults [OF bareCoaster_accepted [of importClock]]
  note chainless = import_flag_defaults [OF chainlessCoaster_accepted [of importClock]]
  from bare absent have b: "storedField ''hasChainLift'' (importCoaster (Some bareCoaster) importClock True oneSave) =
        Some (JBool True)
   \<and> storedField ''isLooped'' (importCoaster (Some bareCoaster) importClock True oneSave) =
        Some (JBool False)
   \<and> storedField ''showWoodSupports'' (importCoaster (Some bareCoaster) importClock True oneSave) =
        Some (JBool False)"
    by simp
  from chainless given have c: "storedField ''hasChainLift'' (importCoaster (Some chainlessCoaster) importClock True oneSave) =
        Some (JBool False)
   \<and> storedField ''isLooped'' (importCoaster (Some chainlessCoaster) importClock True oneSave) =
        Some (JBool True)"
    by simp
  from b c absent bareCoaster_accepted [of importClock] chainlessCoaster_accepted [of importClock]
  show ?thesis
    by (intro conjI) simp_all
qed

section \<open>What import rejects\<close>











section \<open>What import stores of the loop segments\<close>

lemma looseSegments_loose:
  "list_all (\<lambda>seg. \<not> typeofNumber (getProp seg ''radius'')
                   \<and> \<not> typeofNumber (getProp seg ''pitch'')
                   \<and> \<not> typeofString (getProp seg ''entryPointId'')) looseSegments"
  by (simp add: looseSegments_def)

lemma getProp_appended:
  "key \<noteq> other \<Longrightarrow> getProp (JObject (members @ [(other, v)])) key = getProp (JObject members) key"
  "getProp (JObject (members @ [(key, v)])) key = Some v"
  by simp_all

lemma importCoaster_ignores_loopSegments:
  "fst (importCoaster (Some (JObject (members @ [(''loopSegments'', v)]))) clock ok env) =
   fst (importCoaster (Some (JObject members)) clock ok env)"
proof -
  have n: "getProp (JObject (members @ [(''loopSegments'', v)])) ''name'' =
           getProp (JObject members) ''name''"
    by (rule getProp_appended) simp
  have t: "getProp (JObject (members @ [(''loopSegments'', v)])) ''trackPoints'' =
           getProp (JObject members) ''trackPoints''"
    by (rule getProp_appended) simp
  show ?thesis
    unfolding importCoaster_def n t
    by (simp add: Let_def split: option.split json.split)
qed

lemma stored_loopSegments_truthy:
  assumes "fst (importCoaster (Some coaster) clock ok env)"
    and "getProp coaster ''loopSegments'' = Some v" and "truthy (Some v)"
  shows "storedField ''loopSegments'' (importCoaster (Some coaster) clock ok env) = Some v"
  using storedField_accepted [OF assms(1), of "''loopSegments''"] assms(2,3)
  by (auto simp: getProp_validCoaster)

lemma stored_loopSegments_falsy:
  assumes "fst (importCoaster (Some coaster) clock ok env)"
    and "\<not> truthy (getProp coaster ''loopSegments'')"
  shows "storedField ''loopSegments'' (importCoaster (Some coaster) clock ok env) = Some (JArray [])"
  using storedField_accepted [OF assms(1), of "''loopSegments''"] assms(2)
  by (auto simp: getProp_validCoaster split: option.splits)

lemma nullSegmentsCoaster_accepted:
  "fst (importCoaster (Some nullSegmentsCoaster) importClock True oneSave)"
  by (simp add: importCoaster_def nullSegmentsCoaster_def pointOne_valid trim_def isWhiteSpace_def
      oneSave_def loadSavedCoasters_def Let_def)

text \<open>
  Claim C10 as stated fails in its last part: the empty array is substituted not only when
  the field is absent. The save \<open>nullSegmentsCoaster\<close> has the field, holding null; it is
  accepted and the empty array is stored.
\<close>

theorem present_null_loop_segments_replaced:
  "getProp nullSegmentsCoaster ''loopSegments'' = Some JNull
   \<and> fst (importCoaster (Some nullSegmentsCoaster) importClock True oneSave)
   \<and> storedField ''loopSegments'' (importCoaster (Some nullSegmentsCoaster) importClock True oneSave)
        = Some (JArray [])"
proof -
  have field: "getProp nullSegmentsCoaster ''loopSegments'' = Some JNull"
    by (simp add: nullSegmentsCoaster_def)
  have "storedField ''loopSegments'' (importCoaster (Some nullSegmentsCoaster) importClock True oneSave)
        = Some (JArray [])"
    by (rule stored_loopSegments_falsy [OF nullSegmentsCoaster_accepted]) (simp add: field)
  with field nullSegmentsCoaster_accepted show ?thesis
    by (intro conjI)
qed

text \<open>
  Claim C10, as amended. There is an input that \<open>importCoaster\<close> accepts although no
  entry of its \<^verbatim>\<open>loopSegments\<close> has a numeric radius, a numeric pitch or a string
  entry point id: import checks the entries of \<^verbatim>\<open>trackPoints\<close> only, and whether an
  input is accepted does not depend on the value of its \<^verbatim>\<open>loopSegments\<close>. A truthy
  value of the field, any array in particular, is stored as it is; the empty array is
  stored when the field is absent or holds a falsy value (null, false, 0 or the empty
  string).
\<close>

theorem import_stores_loop_segments_unchecked:
  "list_all (\<lambda>seg. \<not> typeofNumber (getProp seg ''radius'')
                   \<and> \<not> typeofNumber (getProp seg ''pitch'')
                   \<and> \<not> typeofString (getProp seg ''entryPointId'')) looseSegments
   \<and> getProp looseCoaster ''loopSegments'' = Some (JArray looseSegments)
   \<and> fst (importCoaster (Some looseCoaster) clock True (None, state))
   \<and> storedField ''loopSegments'' (importCoaster (Some looseCoaster) clock True (None, state)) =
        Some (JArray looseSegments)
   \<and> fst (importCoaster (Some (JObject (members @ [(''loopSegments'', v)]))) clock ok env) =
        fst (importCoaster (Some (JObject members)) clock ok env)
   \<and> (fst (importCoaster (Some coaster) clock ok env)
        \<and> getProp coaster ''loopSegments'' = Some w \<and> truthy (Some w) \<longrightarrow>
        storedField ''loopSegments'' (importCoaster (Some coaster) clock ok env) = Some w)
   \<and> (fst (importCoaster (Some coaster) clock ok env)
        \<and> \<not> truthy (getProp coaster ''loopSegments'') \<longrightarrow>
        storedField ''loopSegments'' (importCoaster (Some coaster) clock ok env) = Some (JArray []))"
proof -
  have field: "getProp looseCoaster ''loopSegments'' = Some (JArray looseSegments)"
    by (simp add: looseCoaster_def)
  have kept: "storedField ''loopSegments'' (importCoaster (Some looseCoaster) clock True (None, state)) =
        Some (JArray looseSegments)"
    by (rule stored_loopSegments_truthy [OF looseCoaster_accepted field]) simp
  have truthy: "fst (importCoaster (Some coaster) clock ok env)
        \<and> getProp coaster ''loopSegments'' = Some w \<and> truthy (Some w) \<longrightarrow>
        storedField ''loopSegments'' (importCoaster (Some coaster) clock ok env) = Some w"
    using stored_loopSegments_truthy [of coaster clock ok env w] by blast
  have falsy: "fst (importCoaster (Some coaster) clock ok env)
        \<and> \<not> truthy (getProp coaster ''loopSegments'') \<longrightarrow>
        storedField ''loopSegments'' (importCoaster (Some coaster) clock ok env) = Some (JArray [])"
    using stored_loopSegments_falsy [of coaster clock ok env] by blast
  from looseSegments_loose field looseCoaster_accepted [of clock state] kept
    importCoaster_ignores_loopSegments [of members v clock ok env] truthy falsy
  show ?thesis
    by (intro conjI)
qed

theorem import_stores_loop_segments_unchecked_witness:
  "fst (importCoaster (Some looseCoaster) importClock True oneSave)
   \<and> getProp looseCoaster ''loopSegments'' =
        Some (JArray [JObject [(''id'', JString ''loop-1'')], JString ''no segment'', JNull])
   \<and> storedField ''loopSegments'' (importCoaster (Some looseCoaster) importClock True oneSave) =
        Some (JArray [JObject [(''id'', JString ''loop-1'')], JString ''no segment'', JNull])
   \<and> fst (importCoaster (Some bareCoaster) importClock True oneSave)
   \<and> getProp bareCoaster ''loopSegments'' = None
   \<and> storedField ''loopSegments'' (importCoaster (Some bareCoaster) importClock True oneSave) =
        Some (JArray [])
   \<and> fst (importCoaster
        (Some (JObject [(''name'', JString ''Bare''), (''trackPoints'', JArray [pointOne]),
                        (''loopSegments'', JNumber 0)])) importClock True oneSave)
   \<and> storedField ''loopSegments'' (importCoaster
        (Some (JObject [(''name'', JString ''Bare''), (''trackPoints'', JArray [pointOne]),
                        (''loopSegments'', JNumber 0)])) importClock True oneSave) = Some (JArray [])
   \<and> fst (importCoaster
        (Some (JObject [(''name'', JString ''Bare''), (''trackPoints'', JArray [pointOne]),
                        (''loopSegments'', JString ''none'')])) importClock True oneSave)
   \<and> storedField ''loopSegments'' (importCoaster
        (Some (JObject [(''name'', JString ''Bare''), (''trackPoints'', JArray [pointOne]),
                        (''loopSegments'', JString ''none'')])) importClock True oneSave) =
        Some (JString ''none'')"
proof -
  have l1: "fst (importCoaster (Some looseCoaster) importClock True oneSave)"
    by (simp add: importCoaster_def looseCoaster_def pointOne_valid trim_examples oneSave_def
        loadSavedCoasters_def Let_def)
  have l2: "getProp looseCoaster ''loopSegments'' =
        Some (JArray [JObject [(''id'', JString ''loop-1'')], JString ''no segment'', JNull])"
    by (simp add: looseCoaster_def looseSegments_def)
  have b2: "getProp bareCoaster ''loopSegments'' = None"
    by (simp add: bareCoaster_def)
  note loose = import_stores_loop_segments_unchecked [where coaster = looseCoaster
      and clock = importClock and ok = True and env = oneSave
      and w = "JArray [JObject [(''id'', JString ''loop-1'')], JString ''no segment'', JNull]"]
  note bare = import_stores_loop_segments_unchecked [where coaster = bareCoaster
      and clock = importClock and ok = True and env = oneSave]
  note zero = import_stores_loop_segments_unchecked [where
      coaster = "JObject [(''name'', JString ''Bare''), (''trackPoints'', JArray [pointOne]),
                        (''loopSegments'', JNumber 0)]"
      and members = "[(''name'', JString ''Bare''), (''trackPoints'', JArray [pointOne])]"
      and v = "JNumber 0" and clock = importClock and ok = True and env = oneSave]
  note named = import_stores_loop_segments_unchecked [where
      coaster = "JObject [(''name'', JString ''Bare''), (''trackPoints'', JArray [pointOne]),
                        (''loopSegments'', JString ''none'')]"
      and members = "[(''name'', JString ''Bare''), (''trackPoints'', JArray [pointOne])]"
      and v = "JString ''none''" and w = "JString ''none''"
      and clock = importClock and ok = True and env = oneSave]
  have l3: "truthy (Some (JArray [JObject [(''id'', JString ''loop-1'')], JString ''no segment'', JNull]))"
    by simp
  from loose l1 l2 l3 have a: "storedField ''loopSegments'' (importCoaster (Some looseCoaster) importClock True oneSave) =
        Some (JArray [JObject [(''id'', JString ''loop-1'')], JString ''no segment'', JNull])"
    by blast
  have b3: "\<not> truthy (getProp bareCoaster ''loopSegments'')"
    by (simp add: b2)
  from bare bareCoaster_accepted [of importClock] b3
  have b: "storedField ''loopSegments'' (importCoaster (Some bareCoaster) importClock True oneSave) =
        Some (JArray [])"
    by blast
  have bare_eq: "JObject [(''name'', JString ''Bare''), (''trackPoints'', JArray [pointOne])] = bareCoaster"
    by (simp add: bareCoaster_def)
  from zero bareCoaster_accepted [of importClock]
  have z1: "fst (importCoaster
        (Some (JObject [(''name'', JString ''Bare''), (''trackPoints'', JArray [pointOne]),
                        (''loopSegments'', JNumber 0)])) importClock True oneSave)"
    by (simp add: bare_eq)
  have z2: "\<not> truthy (getProp (JObject [(''name'', JString ''Bare''), (''trackPoints'', JArray [pointOne]),
                        (''loopSegments'', JNumber 0)]) ''loopSegments'')"
    by simp
  from zero z1 z2
  have z: "storedField ''loopSegments'' (importCoaster
        (Some (JObject [(''name'', JString ''Bare''), (''trackPoints'', JArray [pointOne]),
                        (''loopSegments'', JNumber 0)])) importClock True oneSave) = Some (JArray [])"
    by blast
  from named bareCoaster_accepted [of importClock]
  have t1: "fst (importCoaster
        (Some (JObject [(''name'', JString ''Bare''), (''trackPoints'', JArray [pointOne]),
                        (''loopSegments'', JString ''none'')])) importClock True oneSave)"
    by (simp add: bare_eq)
  have t2: "getProp (JObject [(''name'', JString ''Bare''), (''trackPoints'', JArray [pointOne]),
                        (''loopSegments'', JString ''none'')]) ''loopSegments'' = Some (JString ''none'')"
     and t3: "truthy (Some (JString ''none''))"
    by simp_all
  from named t1 t2 t3
  have t: "storedField ''loopSegments'' (importCoaster
        (Some (JObject [(''name'', JString ''Bare''), (''trackPoints'', JArray [pointOne]),
                        (''loopSegments'', JString ''none'')])) importClock True oneSave) =
        Some (JString ''none'')"
    by blast
  from l1 l2 a bareCoaster_accepted [of importClock] b2 b z1 z t1 t show ?thesis
    by (intro conjI)
qed

end
